theory Spec2Isabelle
  imports Complex_Main "HOL-Library.Product_Lexorder"
begin

section \<open>Python primitives used by the dispatch workflows\<close>

text \<open>
  Python floats are modelled as exact reals and Python ints as \<open>int\<close>.
  \<open>int(x)\<close> on a float truncates toward zero.
\<close>

definition py_int :: "real \<Rightarrow> int" where
  "py_int x = (if 0 \<le> x then \<lfloor>x\<rfloor> else \<lceil>x\<rceil>)"

section \<open>Patient-initiated workflow: data model\<close>

datatype EmergencyType =
  CARDIAC | STROKE | ACCIDENT | BREATHING | UNCONSCIOUS | BLEEDING | BURNS | POISONING | OTHER

fun EmergencyType_value :: "EmergencyType \<Rightarrow> string" where
  "EmergencyType_value CARDIAC = ''cardiac''"
| "EmergencyType_value STROKE = ''stroke''"
| "EmergencyType_value ACCIDENT = ''accident''"
| "EmergencyType_value BREATHING = ''breathing''"
| "EmergencyType_value UNCONSCIOUS = ''unconscious''"
| "EmergencyType_value BLEEDING = ''bleeding''"
| "EmergencyType_value BURNS = ''burns''"
| "EmergencyType_value POISONING = ''poisoning''"
| "EmergencyType_value OTHER = ''other''"

datatype CriticalityLevel = CRITICAL | SERIOUS | MODERATE | MINOR

text \<open>The constructors of \<open>PatientCondition\<close> carry a prefix: \<open>UNCONSCIOUS\<close> is
  already a member of \<open>EmergencyType\<close>.\<close>

datatype PatientCondition =
  PC_CONSCIOUS | PC_UNCONSCIOUS | PC_RESPONSIVE | PC_UNRESPONSIVE

text \<open>\<open>FamilyEmergencyRequest\<close>; \<open>timestamp\<close> is the text of \<open>datetime.now()\<close>.\<close>

record FamilyEmergencyRequest =
  request_id :: string
  caller_name :: string
  caller_phone :: string
  alternate_phone :: "string option"
  patient_name :: string
  patient_age :: int
  patient_gender :: string
  relationship_to_patient :: string
  emergency_location :: string
  detailed_address :: string
  landmark :: "string option"
  gps_lat :: real
  gps_lon :: real
  emergency_type :: EmergencyType
  criticality_level :: CriticalityLevel
  patient_condition :: PatientCondition
  symptoms_description :: string
  is_patient_breathing :: bool
  is_patient_conscious :: bool
  any_bleeding :: bool
  medical_history :: "string option"
  current_medications :: "string option"
  timestamp :: string
  status :: string

text \<open>\<open>PatientAssessment\<close>; its \<open>request_id\<close> field is \<open>pa_request_id\<close> here.\<close>

record PatientAssessment =
  pa_request_id :: string
  patient_critical_score :: int
  severity_level :: CriticalityLevel
  green_corridor_required :: bool
  ambulance_priority :: string
  medical_preparations_needed :: "string list"
  estimated_response_time :: int
  ai_recommendation :: string
  risk_factors :: "string list"

section \<open>Severity scorer: \<open>assess_patient_with_ai\<close>\<close>

text \<open>The age branch of the scorer: points added and the risk factor appended.\<close>

definition age_factors :: "int \<Rightarrow> int \<times> string list" where
  "age_factors age =
     (if age < 1 then (3, [''Infant (high risk)''])
      else if age < 5 then (2, [''Young child''])
      else if age > 75 then (2, [''Elderly patient''])
      else if age > 65 then (1, [''Senior patient''])
      else (0, []))"

text \<open>The dictionary \<open>emergency_scores\<close>; every member of the enumeration is a key, so
  the default 1 of \<open>.get\<close> is never taken.\<close>

fun emergency_scores :: "EmergencyType \<Rightarrow> int" where
  "emergency_scores CARDIAC = 4"
| "emergency_scores STROKE = 4"
| "emergency_scores ACCIDENT = 3"
| "emergency_scores BREATHING = 3"
| "emergency_scores UNCONSCIOUS = 4"
| "emergency_scores BLEEDING = 3"
| "emergency_scores BURNS = 2"
| "emergency_scores POISONING = 3"
| "emergency_scores OTHER = 1"

text \<open>\<open>pcs_score\<close> after the cap at 10, and \<open>risk_factors\<close>, as the function
  accumulates them.\<close>

definition pcs_score :: "FamilyEmergencyRequest \<Rightarrow> int" where
  "pcs_score r =
     min (fst (age_factors (patient_age r))
          + (if \<not> is_patient_conscious r then 4 else 0)
          + (if \<not> is_patient_breathing r then 5 else 0)
          + (if any_bleeding r then 2 else 0)
          + emergency_scores (emergency_type r)) 10"

definition pcs_risk_factors :: "FamilyEmergencyRequest \<Rightarrow> string list" where
  "pcs_risk_factors r =
     snd (age_factors (patient_age r))
     @ (if \<not> is_patient_conscious r then [''Unconscious''] else [])
     @ (if \<not> is_patient_breathing r then [''Breathing difficulties''] else [])
     @ (if any_bleeding r then [''Active bleeding''] else [])
     @ [EmergencyType_value (emergency_type r) @ '' emergency'']"

definition assess_patient_with_ai :: "FamilyEmergencyRequest \<Rightarrow> PatientAssessment" where
  "assess_patient_with_ai r =
     (let s = pcs_score r in
      if s \<ge> 8 then
        \<lparr> pa_request_id = request_id r, patient_critical_score = s,
          severity_level = CRITICAL, green_corridor_required = True,
          ambulance_priority = ''CRITICAL'',
          medical_preparations_needed =
            [''Trauma team activation'', ''ICU bed preparation'', ''Blood bank notification'',
             ''Specialist on standby'', ''Ventilator ready''],
          estimated_response_time = 8,
          ai_recommendation =
            ''IMMEDIATE CRITICAL RESPONSE - Green corridor activation required'',
          risk_factors = pcs_risk_factors r \<rparr>
      else if s \<ge> 6 then
        \<lparr> pa_request_id = request_id r, patient_critical_score = s,
          severity_level = SERIOUS, green_corridor_required = True,
          ambulance_priority = ''HIGH'',
          medical_preparations_needed =
            [''Emergency team alert'', ''Emergency bed ready'', ''Blood type & cross-match'',
             ''Cardiac monitor ready''],
          estimated_response_time = 12,
          ai_recommendation = ''URGENT RESPONSE - Green corridor recommended'',
          risk_factors = pcs_risk_factors r \<rparr>
      else if s \<ge> 4 then
        \<lparr> pa_request_id = request_id r, patient_critical_score = s,
          severity_level = MODERATE, green_corridor_required = False,
          ambulance_priority = ''MEDIUM'',
          medical_preparations_needed =
            [''Emergency bed preparation'', ''Nursing team alert'', ''Basic monitoring setup''],
          estimated_response_time = 18,
          ai_recommendation = ''Standard emergency response with priority routing'',
          risk_factors = pcs_risk_factors r \<rparr>
      else
        \<lparr> pa_request_id = request_id r, patient_critical_score = s,
          severity_level = MINOR, green_corridor_required = False,
          ambulance_priority = ''LOW'',
          medical_preparations_needed =
            [''Outpatient assessment area'', ''Basic examination setup''],
          estimated_response_time = 25,
          ai_recommendation = ''Standard response - monitor during transport'',
          risk_factors = pcs_risk_factors r \<rparr>)"

text \<open>The position of a tier in the order minor < moderate < serious < critical.\<close>

fun tier_rank :: "CriticalityLevel \<Rightarrow> nat" where
  "tier_rank MINOR = 0"
| "tier_rank MODERATE = 1"
| "tier_rank SERIOUS = 2"
| "tier_rank CRITICAL = 3"

section \<open>Incident intake\<close>

text \<open>
  The criticality computed inline by both intake functions
  (\<open>collect_family_emergency_details\<close> and \<open>dashboard_collect_family_emergency\<close>
  carry the same block): the local \<open>criticality_score\<close>, then the level chosen from it.
\<close>

definition criticality_score :: "bool \<Rightarrow> bool \<Rightarrow> bool \<Rightarrow> EmergencyType \<Rightarrow> int \<Rightarrow> int" where
  "criticality_score is_conscious is_breathing bleeding etype age =
     (if \<not> is_conscious then 4 else 0)
     + (if \<not> is_breathing then 5 else 0)
     + (if bleeding then 2 else 0)
     + (if etype \<in> set [CARDIAC, STROKE] then 3 else 0)
     + (if age > 65 then 1 else 0)
     + (if age < 5 then 2 else 0)"

definition level_of_criticality_score :: "int \<Rightarrow> CriticalityLevel" where
  "level_of_criticality_score s =
     (if s \<ge> 8 then CRITICAL
      else if s \<ge> 5 then SERIOUS
      else if s \<ge> 2 then MODERATE
      else MINOR)"

text \<open>The dictionary \<open>base_coords\<close>, by key.\<close>

datatype base_key = delhi_central | gurgaon | noida

fun base_coords :: "base_key \<Rightarrow> real \<times> real" where
  "base_coords delhi_central = (28.6139, 77.2090)"
| "base_coords gurgaon = (28.4595, 77.0266)"
| "base_coords noida = (28.5355, 77.3910)"

text \<open>
  What intake takes from outside the program: the key \<open>random.choice\<close> picks, the two
  draws of \<open>random.uniform(-0.05, 0.05)\<close>, and the two readings of the clock (as
  formatted for the request id, and as stored in \<open>timestamp\<close>).
\<close>

record intake_env =
  chosen_base :: base_key
  uniform_lat :: real
  uniform_lon :: real
  now_id :: string
  now_stamp :: string

definition dashboard_collect_family_emergency ::
  "intake_env \<Rightarrow> string \<Rightarrow> string \<Rightarrow> string \<Rightarrow> int \<Rightarrow> string \<Rightarrow> string \<Rightarrow> EmergencyType
     \<Rightarrow> bool \<Rightarrow> bool \<Rightarrow> bool \<Rightarrow> string \<Rightarrow> FamilyEmergencyRequest" where
  "dashboard_collect_family_emergency env name phone patient age area address etype
       is_conscious is_breathing bleeding symptoms =
     \<lparr> request_id = ''EMR_'' @ now_id env,
       caller_name = name,
       caller_phone = phone,
       alternate_phone = None,
       patient_name = patient,
       patient_age = age,
       patient_gender = ''Unknown'',
       relationship_to_patient = ''Family'',
       emergency_location = area,
       detailed_address = address,
       landmark = None,
       gps_lat = fst (base_coords (chosen_base env)) + uniform_lat env,
       gps_lon = snd (base_coords (chosen_base env)) + uniform_lon env,
       emergency_type = etype,
       criticality_level =
         level_of_criticality_score
           (criticality_score is_conscious is_breathing bleeding etype age),
       patient_condition = (if is_conscious then PC_CONSCIOUS else PC_UNCONSCIOUS),
       symptoms_description = symptoms,
       is_patient_breathing = is_breathing,
       is_patient_conscious = is_conscious,
       any_bleeding = bleeding,
       medical_history = None,
       current_medications = None,
       timestamp = now_stamp env,
       status = ''RECEIVED'' \<rparr>"

subsection \<open>The console intake \<open>collect_family_emergency_details\<close>\<close>











subsection \<open>The submit handler of the dashboard form\<close>



section \<open>Facility matcher of the patient workflow: \<open>check_hospital_bed_availability\<close>\<close>

text \<open>
  \<open>round(x, 2)\<close> on an exact real: to the nearest hundredth, a tie going to the even
  neighbour.
\<close>

definition round_half_even :: "real \<Rightarrow> int" where
  "round_half_even x =
     (let f = \<lfloor>x\<rfloor>; d = x - of_int f in
      if d < 1/2 then f
      else if d > 1/2 then f + 1
      else if even f then f else f + 1)"

definition py_round2 :: "real \<Rightarrow> real" where
  "py_round2 x = of_int (round_half_even (x * 100)) / 100"

text \<open>An entry of the list \<open>hospital_data\<close> (a dictionary with these keys).\<close>

record hospital_entry =
  e_id :: string
  e_name :: string
  e_location :: string
  e_gps_lat :: real
  e_gps_lon :: real
  e_trauma_level :: int
  e_specialties :: "string list"

definition hospital_data :: "hospital_entry list" where
  "hospital_data =
     [\<lparr> e_id = ''AIIMS_DELHI'', e_name = ''AIIMS New Delhi'',
        e_location = ''Ansari Nagar, New Delhi'',
        e_gps_lat = 28.5672, e_gps_lon = 77.2100, e_trauma_level = 1,
        e_specialties = [''trauma'', ''neurosurgery'', ''cardiology'', ''emergency''] \<rparr>,
      \<lparr> e_id = ''SAFDARJUNG'', e_name = ''Safdarjung Hospital'',
        e_location = ''Safdarjung Enclave, New Delhi'',
        e_gps_lat = 28.5638, e_gps_lon = 77.2066, e_trauma_level = 1,
        e_specialties = [''trauma'', ''emergency'', ''orthopedics'', ''neurology''] \<rparr>,
      \<lparr> e_id = ''FORTIS_DELHI'', e_name = ''Fortis Hospital Shalimar Bagh'',
        e_location = ''Shalimar Bagh, Delhi'',
        e_gps_lat = 28.7041, e_gps_lon = 77.1025, e_trauma_level = 2,
        e_specialties = [''cardiology'', ''trauma'', ''emergency''] \<rparr>,
      \<lparr> e_id = ''MAX_SAKET'', e_name = ''Max Super Speciality Hospital Saket'',
        e_location = ''Saket, New Delhi'',
        e_gps_lat = 28.5244, e_gps_lon = 77.2066, e_trauma_level = 2,
        e_specialties = [''trauma'', ''emergency'', ''cardiology''] \<rparr>]"

text \<open>\<open>RealTimeHospital\<close>; the fields it shares with the request carry the prefix
  \<open>h_\<close>.\<close>

record RealTimeHospital =
  h_id :: string
  h_name :: string
  h_location :: string
  h_gps_lat :: real
  h_gps_lon :: real
  available_beds :: int
  icu_beds :: int
  trauma_level :: int
  distance_km :: real
  current_load :: string
  specialties :: "string list"
  estimated_admission_time :: int

text \<open>
  What one pass of the loop takes from outside: the hour of \<open>datetime.now()\<close> and the two
  draws of \<open>random.randint\<close> (for the general beds and for the ICU beds).
\<close>

record bed_feed =
  current_hour :: int
  randint_beds :: int
  randint_icu :: int

text \<open>The simulated availability: \<open>(available_beds, icu_beds, load)\<close> before the
  override.\<close>

definition simulated_beds :: "hospital_entry \<Rightarrow> bed_feed \<Rightarrow> int \<times> int \<times> string" where
  "simulated_beds e f =
     (let base_beds = (if e_trauma_level e = 1 then 25 else 15) in
      if 14 \<le> current_hour f \<and> current_hour f \<le> 18 then
        (max 0 (base_beds - randint_beds f), max 0 (10 - randint_icu f), ''HIGH'')
      else if 22 \<le> current_hour f \<or> current_hour f \<le> 6 then
        (max 0 (base_beds - randint_beds f), max 0 (10 - randint_icu f), ''MEDIUM'')
      else
        (max 0 (base_beds - randint_beds f), max 0 (10 - randint_icu f), ''NORMAL''))"

text \<open>The critical override, applied to the simulated triple.\<close>

definition critical_override :: "CriticalityLevel \<Rightarrow> int \<times> int \<times> string \<Rightarrow> int \<times> int \<times> string" where
  "critical_override sev t =
     (case t of (beds, icu, load) \<Rightarrow>
        if sev = CRITICAL \<and> beds = 0 then (1, max 1 icu, ''CRITICAL_OVERRIDE'')
        else (beds, icu, load))"

text \<open>
  One pass of the loop over \<open>hospital_data\<close>: the hospital built, and whether it is
  appended to \<open>available_hospitals\<close>. \<open>geodesic\<close> is geopy's distance in kilometres
  between two (lat, lon) points.
\<close>

definition hospital_candidate ::
  "((real \<times> real) \<Rightarrow> (real \<times> real) \<Rightarrow> real) \<Rightarrow> FamilyEmergencyRequest \<Rightarrow> PatientAssessment
     \<Rightarrow> hospital_entry \<Rightarrow> bed_feed \<Rightarrow> RealTimeHospital option" where
  "hospital_candidate geodesic req a e f =
     (let distance = geodesic (gps_lat req, gps_lon req) (e_gps_lat e, e_gps_lon e) in
      case critical_override (severity_level a) (simulated_beds e f) of
        (beds, icu, load) \<Rightarrow>
          (let hospital =
             \<lparr> h_id = e_id e, h_name = e_name e, h_location = e_location e,
               h_gps_lat = e_gps_lat e, h_gps_lon = e_gps_lon e,
               available_beds = beds, icu_beds = icu,
               trauma_level = e_trauma_level e,
               distance_km = py_round2 distance,
               current_load = load,
               specialties = e_specialties e,
               estimated_admission_time = (if load \<noteq> ''HIGH'' then 30 else 45) \<rparr>
           in if beds > 0 \<or> severity_level a = CRITICAL then Some hospital else None))"

text \<open>The nested function \<open>hospital_priority\<close>, the sort key.\<close>

definition hospital_priority :: "FamilyEmergencyRequest \<Rightarrow> RealTimeHospital \<Rightarrow> int \<times> real \<times> int" where
  "hospital_priority req h =
     (let specialty_match =
        (if emergency_type req = CARDIAC \<and> ''cardiology'' \<in> set (specialties h) then 1
         else if emergency_type req = STROKE
                 \<and> (\<exists>s \<in> set [''neurology'', ''neurosurgery'']. s \<in> set (specialties h)) then 1
         else if ''trauma'' \<in> set (specialties h) \<or> ''emergency'' \<in> set (specialties h) then 2
         else 0)
      in (specialty_match, distance_km h, - available_beds h))"

text \<open>
  The function: the candidates in catalogue order, then \<open>list.sort(key=...)\<close>, which is
  stable, as \<open>sort_key\<close> is. \<open>feed\<close> gives the clock and the draws of the pass over the
  i-th catalogue entry. The caller dispatches to the first hospital of the result.
\<close>

definition available_hospitals ::
  "((real \<times> real) \<Rightarrow> (real \<times> real) \<Rightarrow> real) \<Rightarrow> (nat \<Rightarrow> bed_feed) \<Rightarrow> FamilyEmergencyRequest
     \<Rightarrow> PatientAssessment \<Rightarrow> RealTimeHospital list" where
  "available_hospitals geodesic feed req a =
     List.map_filter (\<lambda>(i, e). hospital_candidate geodesic req a e (feed i))
       (enumerate 0 hospital_data)"

definition check_hospital_bed_availability ::
  "((real \<times> real) \<Rightarrow> (real \<times> real) \<Rightarrow> real) \<Rightarrow> (nat \<Rightarrow> bed_feed) \<Rightarrow> FamilyEmergencyRequest
     \<Rightarrow> PatientAssessment \<Rightarrow> RealTimeHospital list" where
  "check_hospital_bed_availability geodesic feed req a =
     sort_key (hospital_priority req) (available_hospitals geodesic feed req a)"

definition selected_hospital :: "RealTimeHospital list \<Rightarrow> RealTimeHospital option" where
  "selected_hospital hs = (case hs of [] \<Rightarrow> None | h # _ \<Rightarrow> Some h)"

section \<open>Route estimator and corridor of the patient workflow\<close>

text \<open>\<open>PatientRoute\<close> (\<open>request_id\<close> and \<open>distance_km\<close> carry the prefix \<open>pr_\<close>);
  \<open>pickup_location\<close> is the pair (lat, lon).\<close>

record PatientRoute =
  ambulance_id :: string
  pr_request_id :: string
  pickup_location :: "real \<times> real"
  hospital_destination :: RealTimeHospital
  pr_distance_km :: real
  estimated_time_normal :: int
  estimated_time_green_corridor :: int
  time_saved_minutes :: int
  route_priority :: string
  traffic_conditions :: string

text \<open>\<open>s[-4:]\<close>: the last four characters, or all of a shorter string.\<close>

definition last_chars :: "nat \<Rightarrow> string \<Rightarrow> string" where
  "last_chars k s = drop (length s - k) s"

text \<open>\<open>hour\<close> is \<open>datetime.now().hour\<close>.\<close>

definition calculate_patient_route ::
  "int \<Rightarrow> FamilyEmergencyRequest \<Rightarrow> RealTimeHospital \<Rightarrow> PatientAssessment \<Rightarrow> PatientRoute" where
  "calculate_patient_route hour req hospital a =
     (let distance = distance_km hospital;
          (traffic, base_speed) =
            (if (7 \<le> hour \<and> hour \<le> 10) \<or> (17 \<le> hour \<and> hour \<le> 20) then (''HEAVY'', 15::real)
             else if 11 \<le> hour \<and> hour \<le> 16 then (''MODERATE'', 25)
             else (''LIGHT'', 35));
          normal_time = py_int ((distance / base_speed) * 60);
          green_corridor_time =
            (if green_corridor_required a then py_int (of_int normal_time * 0.55)
             else py_int (of_int normal_time * 0.85));
          time_saved = normal_time - green_corridor_time
      in \<lparr> ambulance_id = ''AMB_'' @ last_chars 4 (request_id req),
           pr_request_id = request_id req,
           pickup_location = (gps_lat req, gps_lon req),
           hospital_destination = hospital,
           pr_distance_km = distance,
           estimated_time_normal = normal_time,
           estimated_time_green_corridor = green_corridor_time,
           time_saved_minutes = time_saved,
           route_priority =
             (if green_corridor_required a then ''GREEN_CORRIDOR'' else ''PRIORITY''),
           traffic_conditions = traffic \<rparr>)"

text \<open>The speed \<open>calculate_patient_route\<close> takes for the hour.\<close>

definition base_speed_at :: "int \<Rightarrow> real" where
  "base_speed_at hour =
     (if (7 \<le> hour \<and> hour \<le> 10) \<or> (17 \<le> hour \<and> hour \<le> 20) then 15
      else if 11 \<le> hour \<and> hour \<le> 16 then 25 else 35)"

text \<open>\<open>PatientGreenCorridor\<close> (prefix \<open>gc_\<close> on the names already taken).\<close>

record PatientGreenCorridor =
  corridor_id :: string
  gc_request_id :: string
  gc_ambulance_id :: string
  activation_reason :: string
  activation_time :: string
  affected_signals :: int
  estimated_time_saved :: int
  traffic_police_notified :: bool
  gc_status :: string

fun CriticalityLevel_upper :: "CriticalityLevel \<Rightarrow> string" where
  "CriticalityLevel_upper CRITICAL = ''CRITICAL''"
| "CriticalityLevel_upper SERIOUS = ''SERIOUS''"
| "CriticalityLevel_upper MODERATE = ''MODERATE''"
| "CriticalityLevel_upper MINOR = ''MINOR''"

text \<open>The function returns \<open>None\<close> or the activation; \<open>now\<close> is the clock reading.\<close>

definition activate_patient_green_corridor ::
  "string \<Rightarrow> PatientRoute \<Rightarrow> PatientAssessment \<Rightarrow> PatientGreenCorridor option" where
  "activate_patient_green_corridor now route a =
     (if \<not> green_corridor_required a then None
      else Some
        \<lparr> corridor_id = ''GC_'' @ pr_request_id route,
          gc_request_id = pr_request_id route,
          gc_ambulance_id = ambulance_id route,
          activation_reason =
            CriticalityLevel_upper (severity_level a) @ '' patient - '' @ ai_recommendation a,
          activation_time = now,
          affected_signals = py_int (pr_distance_km route * 1.8),
          estimated_time_saved = time_saved_minutes route,
          traffic_police_notified = True,
          gc_status = ''ACTIVATED'' \<rparr>)"

section \<open>Real-time incident workflow\<close>

text \<open>The records of this workflow carry a prefix on every field: \<open>acc_\<close>, \<open>pcs_\<close>,
  \<open>hosp_\<close>, \<open>ro_\<close>, \<open>ti_\<close>, \<open>gca_\<close>.\<close>

datatype AccidentSeverity = AS_MINOR | AS_MODERATE | AS_SERIOUS | AS_CRITICAL

datatype GreenCorridorStatus = INACTIVE | ACTIVATED | ACTIVE | COMPLETED

record Accident =
  acc_id :: string
  acc_description :: string
  acc_location :: string
  acc_gps_lat :: real
  acc_gps_lon :: real
  acc_timestamp :: string
  acc_severity_indicators :: "string list"
  acc_news_sources :: "string list"
  acc_confidence_score :: real

record PCSAssessment =
  pcs_accident_id :: string
  pcs_patient_critical_score :: int
  pcs_severity_level :: AccidentSeverity
  pcs_recommendation :: string
  pcs_score_breakdown :: "(string \<times> int) list"
  pcs_estimated_patients :: int
  pcs_priority_level :: string

record Hospital =
  hosp_id :: string
  hosp_name :: string
  hosp_location :: string
  hosp_gps_lat :: real
  hosp_gps_lon :: real
  hosp_trauma_level :: int
  hosp_available_beds :: int
  hosp_specialties :: "string list"
  hosp_distance_km :: real

record RouteOptimization =
  ro_ambulance_id :: string
  ro_accident_id :: string
  ro_route_coordinates :: "(real \<times> real) list"
  ro_distance_km :: real
  ro_estimated_time_normal :: int
  ro_estimated_time_green_corridor :: int
  ro_time_saved_minutes :: int
  ro_target_hospital :: Hospital
  ro_traffic_intersections :: int

subsection \<open>\<open>optimize_eta_with_cerebras\<close>\<close>

text \<open>The dictionary \<open>route_data\<close>: \<open>severity\<close> and \<open>normal_time\<close> are read with
  \<open>.get\<close> and a default.\<close>

record route_data =
  rd_severity :: "int option"
  rd_distance_km :: real
  rd_normal_time :: "int option"

text \<open>\<open>re.search(r'\d+', result)\<close> on ASCII text: the first maximal run of digits, and
  \<open>int\<close> of it (the reply is asked with at most 50 tokens, so the run is far shorter than
  the digit strings \<open>int\<close> refuses).\<close>

definition is_digit :: "char \<Rightarrow> bool" where
  "is_digit c = (c \<in> set ''0123456789'')"

definition first_digits :: "string \<Rightarrow> string" where
  "first_digits s = takeWhile is_digit (dropWhile (\<lambda>c. \<not> is_digit c) s)"

definition int_of_digits :: "string \<Rightarrow> int" where
  "int_of_digits ds = foldl (\<lambda>n c. 10 * n + (int (of_char c) - 48)) 0 ds"

text \<open>\<open>response\<close> is what \<open>call_cerebras_api\<close> returns, \<open>None\<close> when it raises (the
  bare \<open>except\<close> then takes the fallback).\<close>

definition eta_fallback :: "int \<Rightarrow> int \<Rightarrow> int" where
  "eta_fallback severity normal_time =
     (let improvement_factor =
        (if severity < 6 then 0.7 else if severity < 8 then 0.6 else (0.5::real))
      in max (py_int (of_int normal_time * improvement_factor)) 3)"

definition optimize_eta_with_cerebras :: "route_data \<Rightarrow> string option \<Rightarrow> int" where
  "optimize_eta_with_cerebras rd response =
     (let severity = (case rd_severity rd of Some s \<Rightarrow> s | None \<Rightarrow> 5);
          normal_time = (case rd_normal_time rd of Some n \<Rightarrow> n | None \<Rightarrow> 15)
      in case response of
           None \<Rightarrow> eta_fallback severity normal_time
         | Some result \<Rightarrow>
             (if first_digits result \<noteq> [] then
                (let optimized_time = int_of_digits (first_digits result);
                     min_time = max (py_int (of_int normal_time * 0.5)) 3;
                     max_time = py_int (of_int normal_time * 0.9)
                 in max min_time (min optimized_time max_time))
              else eta_fallback severity normal_time))"

subsection \<open>\<open>calculate_route_with_cerebras\<close>\<close>

text \<open>The local list \<open>hospitals\<close>, built afresh by every call.\<close>

definition hospitals :: "Hospital list" where
  "hospitals =
     [\<lparr> hosp_id = ''AIIMS_TRAUMA'', hosp_name = ''AIIMS Trauma Center'',
        hosp_location = ''New Delhi'', hosp_gps_lat = 28.5672, hosp_gps_lon = 77.2100,
        hosp_trauma_level = 1, hosp_available_beds = 15,
        hosp_specialties = [''trauma'', ''neurosurgery'', ''orthopedics''],
        hosp_distance_km = 0 \<rparr>,
      \<lparr> hosp_id = ''FORTIS_DELHI'', hosp_name = ''Fortis Hospital Delhi'',
        hosp_location = ''Shalimar Bagh, Delhi'', hosp_gps_lat = 28.7041, hosp_gps_lon = 77.1025,
        hosp_trauma_level = 2, hosp_available_beds = 8,
        hosp_specialties = [''cardiology'', ''trauma'', ''emergency''],
        hosp_distance_km = 0 \<rparr>,
      \<lparr> hosp_id = ''MAX_SAKET'', hosp_name = ''Max Super Speciality Hospital'',
        hosp_location = ''Saket, Delhi'', hosp_gps_lat = 28.5244, hosp_gps_lon = 77.2066,
        hosp_trauma_level = 1, hosp_available_beds = 12,
        hosp_specialties = [''trauma'', ''cardiology'', ''neurosurgery''],
        hosp_distance_km = 0 \<rparr>]"

text \<open>The dictionary \<open>accident_locations\<close>: a later accident with the same id replaces
  an earlier one.\<close>

definition accident_locations :: "Accident list option \<Rightarrow> string \<Rightarrow> (real \<times> real) option" where
  "accident_locations accident_data =
     (case accident_data of
        None \<Rightarrow> Map.empty
      | Some accidents \<Rightarrow>
          fold (\<lambda>a m. m(acc_id a \<mapsto> (acc_gps_lat a, acc_gps_lon a))) accidents Map.empty)"

definition fallback_locations :: "(real \<times> real) list" where
  "fallback_locations = [(28.6139, 77.2090), (28.4595, 77.0266), (28.7041, 77.1025)]"

text \<open>\<open>py_hash\<close> is Python's \<open>hash\<close> on the id; \<open>% 3\<close> is never negative.\<close>

definition accident_location ::
  "(string \<Rightarrow> int) \<Rightarrow> (string \<Rightarrow> (real \<times> real) option) \<Rightarrow> PCSAssessment \<Rightarrow> real \<times> real" where
  "accident_location py_hash locs a =
     (case locs (pcs_accident_id a) of
        Some l \<Rightarrow> l
      | None \<Rightarrow> fallback_locations ! nat (py_hash (pcs_accident_id a) mod 3))"

text \<open>
  The two search loops run over the positions of the list, so that the hospital chosen
  is the element of the list itself (the code keeps a reference to it and decrements its
  counter in place). \<open>min_distance\<close> and \<open>best_hospital\<close> are assigned together in every
  branch, and are one value here: \<open>None\<close> is the start (\<open>inf\<close>, no hospital),
  \<open>Some (d, j)\<close> is distance \<open>d\<close> and the hospital at position \<open>j\<close>.
\<close>

definition closer :: "real \<Rightarrow> (real \<times> nat) option \<Rightarrow> bool" where
  "closer distance best = (case best of None \<Rightarrow> True | Some (m, _) \<Rightarrow> distance < m)"

fun find_nearest ::
  "int \<Rightarrow> ((real \<times> real) \<Rightarrow> (real \<times> real) \<Rightarrow> real) \<Rightarrow> real \<times> real \<Rightarrow> nat list
     \<Rightarrow> Hospital list \<times> (real \<times> nat) option \<Rightarrow> Hospital list \<times> (real \<times> nat) option" where
  "find_nearest score geodesic loc [] st = st"
| "find_nearest score geodesic loc (i # rest) (hs, best) =
     (let hospital = hs ! i;
          distance = geodesic loc (hosp_gps_lat hospital, hosp_gps_lon hospital);
          hs' = hs[i := hospital\<lparr>hosp_distance_km := distance\<rparr>];
          best' =
            (if score \<ge> 8 then
               (if hosp_trauma_level hospital = 1 \<and> hosp_available_beds hospital > 0
                then (if closer distance best then Some (distance, i) else best)
                else best)
             else if score \<ge> 6 then
               (if hosp_available_beds hospital > 0
                then (if closer distance best then Some (distance, i) else best)
                else best)
             else
               (if hosp_available_beds hospital > 0 \<and> closer distance best
                then Some (distance, i) else best))
      in find_nearest score geodesic loc rest (hs', best'))"

fun nearest_available ::
  "((real \<times> real) \<Rightarrow> (real \<times> real) \<Rightarrow> real) \<Rightarrow> real \<times> real \<Rightarrow> Hospital list \<Rightarrow> nat list
     \<Rightarrow> (real \<times> nat) option \<Rightarrow> (real \<times> nat) option" where
  "nearest_available geodesic loc hs [] best = best"
| "nearest_available geodesic loc hs (i # rest) best =
     (let hospital = hs ! i in
      if hosp_available_beds hospital > 0 then
        (let distance = geodesic loc (hosp_gps_lat hospital, hosp_gps_lon hospital) in
         nearest_available geodesic loc hs rest
           (if closer distance best then Some (distance, i) else best))
      else nearest_available geodesic loc hs rest best)"

text \<open>Decimal text of a number, for the ambulance and intersection ids.\<close>

fun str_nat :: "nat \<Rightarrow> string" where
  "str_nat n =
     (if n < 10 then [char_of (48 + n)]
      else str_nat (n div 10) @ [char_of (48 + n mod 10)])"

declare str_nat.simps [simp del]

text \<open>
  The body of the loop over the assessments: the state is the hospital list and the
  routes so far. \<open>cerebras k\<close> is the reply to the k-th call of the API (counted from 0;
  one call is made for each route).
\<close>

definition route_for_assessment ::
  "((real \<times> real) \<Rightarrow> (real \<times> real) \<Rightarrow> real) \<Rightarrow> (string \<Rightarrow> int) \<Rightarrow> (nat \<Rightarrow> string option)
     \<Rightarrow> (string \<Rightarrow> (real \<times> real) option) \<Rightarrow> PCSAssessment
     \<Rightarrow> Hospital list \<times> RouteOptimization list \<Rightarrow> Hospital list \<times> RouteOptimization list" where
  "route_for_assessment geodesic py_hash cerebras locs a st =
     (case st of (hs, routes) \<Rightarrow>
      let loc = accident_location py_hash locs a;
          score = pcs_patient_critical_score a
      in case find_nearest score geodesic loc [0..<length hs] (hs, None) of
           (hs1, best1) \<Rightarrow>
             (case (if best1 = None
                    then nearest_available geodesic loc hs1 [0..<length hs1] None
                    else best1) of
                None \<Rightarrow> (hs1, routes)
              | Some (min_distance, j) \<Rightarrow>
                  (let base_speed = (if score \<ge> 7 then 35 else (25::real));
                       normal_time = max (py_int ((min_distance / base_speed) * 60)) 5;
                       green_corridor_time =
                         optimize_eta_with_cerebras
                           \<lparr> rd_severity = Some score, rd_distance_km = min_distance,
                             rd_normal_time = Some normal_time \<rparr>
                           (cerebras (length routes));
                       time_saved = max (normal_time - green_corridor_time) 1;
                       best_hospital = hs1 ! j;
                       reserved =
                         best_hospital
                           \<lparr>hosp_available_beds := hosp_available_beds best_hospital - 1\<rparr>;
                       route =
                         \<lparr> ro_ambulance_id = ''AMB_'' @ str_nat (length routes + 1) @ ''##'',
                           ro_accident_id = pcs_accident_id a,
                           ro_route_coordinates =
                             [loc, (hosp_gps_lat best_hospital, hosp_gps_lon best_hospital)],
                           ro_distance_km = py_round2 min_distance,
                           ro_estimated_time_normal = normal_time,
                           ro_estimated_time_green_corridor = green_corridor_time,
                           ro_time_saved_minutes = time_saved,
                           ro_target_hospital = reserved,
                           ro_traffic_intersections = max (py_int (min_distance * 1.5)) 2 \<rparr>
                   in (hs1[j := reserved], routes @ [route]))))"

text \<open>The whole loop, from the fresh hospital list or from any other state, and the
  function: no routes for a missing or empty list of assessments.\<close>

definition route_all ::
  "((real \<times> real) \<Rightarrow> (real \<times> real) \<Rightarrow> real) \<Rightarrow> (string \<Rightarrow> int) \<Rightarrow> (nat \<Rightarrow> string option)
     \<Rightarrow> (string \<Rightarrow> (real \<times> real) option) \<Rightarrow> PCSAssessment list
     \<Rightarrow> Hospital list \<times> RouteOptimization list \<Rightarrow> Hospital list \<times> RouteOptimization list" where
  "route_all geodesic py_hash cerebras locs assessments st =
     fold (route_for_assessment geodesic py_hash cerebras locs) assessments st"

definition calculate_route_with_cerebras ::
  "((real \<times> real) \<Rightarrow> (real \<times> real) \<Rightarrow> real) \<Rightarrow> (string \<Rightarrow> int) \<Rightarrow> (nat \<Rightarrow> string option)
     \<Rightarrow> PCSAssessment list option \<Rightarrow> Accident list option \<Rightarrow> RouteOptimization list" where
  "calculate_route_with_cerebras geodesic py_hash cerebras pcs_results accident_data =
     (case pcs_results of
        None \<Rightarrow> []
      | Some assessments \<Rightarrow>
          snd (route_all geodesic py_hash cerebras (accident_locations accident_data)
                 assessments (hospitals, [])))"

subsection \<open>\<open>activate_green_corridor_sumo\<close>\<close>

text \<open>\<open>TrafficIntersection\<close>: the two times are the minutes after the clock reading.\<close>

record TrafficIntersection =
  ti_intersection_id :: string
  ti_location :: "real \<times> real"
  ti_signal_status :: string
  ti_activation_after :: int
  ti_passage_after :: int

record GreenCorridorActivation =
  gca_green_corridor_id :: string
  gca_ambulance_id :: string
  gca_accident_id :: string
  gca_activation_time :: string
  gca_status :: GreenCorridorStatus
  gca_affected_intersections :: "TrafficIntersection list"
  gca_total_intersections :: int
  gca_estimated_time_saved :: int

text \<open>\<open>{i+1:02d}\<close>: at least two digits.\<close>

definition pad2 :: "nat \<Rightarrow> string" where
  "pad2 n = (if n < 10 then ''0'' @ str_nat n else str_nat n)"

definition intersection_at :: "RouteOptimization \<Rightarrow> nat \<Rightarrow> TrafficIntersection" where
  "intersection_at route i =
     \<lparr> ti_intersection_id =
         ''INT_'' @ last_chars 3 (ro_accident_id route) @ ''_'' @ pad2 (i + 1),
       ti_location =
         (fst (ro_route_coordinates route ! 0) + of_nat i * 0.001,
          snd (ro_route_coordinates route ! 0) + of_nat i * 0.001),
       ti_signal_status = ''GREEN_PRIORITY'',
       ti_activation_after = int i * 2,
       ti_passage_after = int i * 2 + 1 \<rparr>"

definition corridor_activation :: "string \<Rightarrow> RouteOptimization \<Rightarrow> GreenCorridorActivation" where
  "corridor_activation now route =
     (let intersections =
        map (intersection_at route) [0..<nat (min (ro_traffic_intersections route) 10)]
      in \<lparr> gca_green_corridor_id = ''GC_'' @ ro_accident_id route,
           gca_ambulance_id = ro_ambulance_id route,
           gca_accident_id = ro_accident_id route,
           gca_activation_time = now,
           gca_status = ACTIVATED,
           gca_affected_intersections = intersections,
           gca_total_intersections = int (length intersections),
           gca_estimated_time_saved = ro_time_saved_minutes route \<rparr>)"

definition activate_green_corridor_sumo ::
  "string \<Rightarrow> RouteOptimization list option \<Rightarrow> GreenCorridorActivation list" where
  "activate_green_corridor_sumo now route_results =
     (case route_results of
        None \<Rightarrow> []
      | Some routes \<Rightarrow>
          map (corridor_activation now) (filter (\<lambda>route. ro_time_saved_minutes route \<ge> 5) routes))"

section \<open>Invariants of the hospital search\<close>

text \<open>
  What the search loops keep: a chosen position lies in the list, its hospital has a
  free bed, and the distance kept with it is the distance to that hospital.
\<close>

definition nearest_inv ::
  "((real \<times> real) \<Rightarrow> (real \<times> real) \<Rightarrow> real) \<Rightarrow> real \<times> real \<Rightarrow> Hospital list
     \<Rightarrow> (real \<times> nat) option \<Rightarrow> bool" where
  "nearest_inv geodesic loc hs best =
     (case best of
        None \<Rightarrow> True
      | Some (d, j) \<Rightarrow>
          j < length hs \<and> 0 < hosp_available_beds (hs ! j)
          \<and> d = geodesic loc (hosp_gps_lat (hs ! j), hosp_gps_lon (hs ! j)))"

text \<open>Two hospital lists that differ at most in the \<open>distance_km\<close> fields.\<close>

definition same_but_distance :: "Hospital list \<Rightarrow> Hospital list \<Rightarrow> bool" where
  "same_but_distance hs hs' =
     (map (\<lambda>h. h\<lparr>hosp_distance_km := 0\<rparr>) hs' = map (\<lambda>h. h\<lparr>hosp_distance_km := 0\<rparr>) hs)"

section \<open>Statements of the specification, as it words them\<close>

text \<open>
  The severity score as the specification gives it: the weights for unconsciousness,
  non-breathing and bleeding, the category weight, and the age bands
  age < 5 (+2), age > 65 (+1), age > 75 (+2), summed and clamped to [0, 10].
\<close>

definition spec_severity_score :: "FamilyEmergencyRequest \<Rightarrow> int" where
  "spec_severity_score r =
     max 0 (min 10
       ((if \<not> is_patient_conscious r then 4 else 0)
        + (if \<not> is_patient_breathing r then 5 else 0)
        + (if any_bleeding r then 2 else 0)
        + emergency_scores (emergency_type r)
        + (if patient_age r < 5 then 2 else 0)
        + (if patient_age r > 75 then 2 else if patient_age r > 65 then 1 else 0)))"

text \<open>
  The ranking key as the specification gives it: rank 0 for a facility with a specialty
  matching the category, 1 for a general trauma or emergency facility, 2 otherwise; then
  the geodesic distance from the patient to the facility; then the negated bed count. A
  specialty matches as the matcher tests it: cardiology for a cardiac case, neurology or
  neurosurgery for a stroke.
\<close>

definition specialty_matches :: "EmergencyType \<Rightarrow> string list \<Rightarrow> bool" where
  "specialty_matches etype sp =
     ((etype = CARDIAC \<and> ''cardiology'' \<in> set sp)
      \<or> (etype = STROKE \<and> (''neurology'' \<in> set sp \<or> ''neurosurgery'' \<in> set sp)))"

definition spec_rank :: "FamilyEmergencyRequest \<Rightarrow> RealTimeHospital \<Rightarrow> int" where
  "spec_rank req h =
     (if specialty_matches (emergency_type req) (specialties h) then 0
      else if ''trauma'' \<in> set (specialties h) \<or> ''emergency'' \<in> set (specialties h) then 1
      else 2)"

definition spec_priority ::
  "((real \<times> real) \<Rightarrow> (real \<times> real) \<Rightarrow> real) \<Rightarrow> FamilyEmergencyRequest \<Rightarrow> RealTimeHospital
     \<Rightarrow> int \<times> real \<times> int" where
  "spec_priority geodesic req h =
     (spec_rank req h,
      geodesic (gps_lat req, gps_lon req) (h_gps_lat h, h_gps_lon h),
      - available_beds h)"

text \<open>The same key with the distance the candidate stores, the geodesic distance rounded
  to two decimals.\<close>

definition stored_priority :: "FamilyEmergencyRequest \<Rightarrow> RealTimeHospital \<Rightarrow> int \<times> real \<times> int" where
  "stored_priority req h = (spec_rank req h, distance_km h, - available_beds h)"

text \<open>The baseline ETA as the specification gives it: distance over speed, in minutes,
  rounded up, at least 1.\<close>

definition spec_baseline_eta :: "real \<Rightarrow> real \<Rightarrow> int" where
  "spec_baseline_eta distance speed = max 1 \<lceil>(distance / speed) * 60\<rceil>"

text \<open>The corridor rule as the specification gives it.\<close>

definition spec_corridor_rule :: "bool \<Rightarrow> int \<Rightarrow> int \<Rightarrow> bool" where
  "spec_corridor_rule required time_saved minimum =
     ((required \<or> time_saved \<ge> minimum) \<and> time_saved > 0)"

text \<open>The bounds the specification puts on an ETA taken from the oracle.\<close>

definition spec_oracle_bounds :: "int \<Rightarrow> int \<Rightarrow> bool" where
  "spec_oracle_bounds baseline eta =
     (0.5 * real_of_int baseline \<le> real_of_int eta
      \<and> real_of_int eta \<le> 0.9 * real_of_int baseline \<and> 3 \<le> eta)"

section \<open>Sample inputs\<close>

definition sample_env :: intake_env where
  "sample_env =
     \<lparr> chosen_base = delhi_central, uniform_lat = 0.01, uniform_lon = - 0.02,
       now_id = ''20250930152000'', now_stamp = ''2025-09-30 15:20:00'' \<rparr>"

text \<open>The mock emergency of the dashboard, with the answers left open.\<close>

definition sample_request :: "int \<Rightarrow> EmergencyType \<Rightarrow> bool \<Rightarrow> bool \<Rightarrow> bool \<Rightarrow> FamilyEmergencyRequest" where
  "sample_request age etype conscious breathing bleeding =
     dashboard_collect_family_emergency sample_env ''Rajesh Kumar'' ''+91-9876543210''
       ''Sunita Kumar'' age ''Connaught Place, New Delhi''
       ''B-12, Inner Circle, Connaught Place, New Delhi - 110001'' etype
       conscious breathing bleeding ''Chest pain, difficulty breathing''"

text \<open>A stand-in for the geodesic distance: degrees of latitude and longitude turned
  into kilometres along the grid.\<close>

definition grid_km :: "real \<times> real \<Rightarrow> real \<times> real \<Rightarrow> real" where
  "grid_km p q = 111 * \<bar>fst p - fst q\<bar> + 98 * \<bar>snd p - snd q\<bar>"

definition sample_assessment :: "string \<Rightarrow> int \<Rightarrow> PCSAssessment" where
  "sample_assessment ident score =
     \<lparr> pcs_accident_id = ident, pcs_patient_critical_score = score,
       pcs_severity_level = (if score \<ge> 6 then AS_SERIOUS else AS_MODERATE),
       pcs_recommendation = (if score \<ge> 6 then ''Activate Green Corridor'' else ''Expedited route''),
       pcs_score_breakdown = [(''multi_vehicle'', 3), (''highway_location'', 1)],
       pcs_estimated_patients = 2, pcs_priority_level = ''MEDIUM'' \<rparr>"

text \<open>A candidate facility at a given distance.\<close>

definition sample_hospital :: "real \<Rightarrow> RealTimeHospital" where
  "sample_hospital d =
     \<lparr> h_id = ''AIIMS_DELHI'', h_name = ''AIIMS New Delhi'',
       h_location = ''Ansari Nagar, New Delhi'', h_gps_lat = 28.5672, h_gps_lon = 77.2100,
       available_beds = 7, icu_beds = 3, trauma_level = 1, distance_km = d,
       current_load = ''NORMAL'',
       specialties = [''trauma'', ''neurosurgery'', ''cardiology'', ''emergency''],
       estimated_admission_time = 30 \<rparr>"

text \<open>One pass and one run of the real-time matcher from the fresh hospital list.\<close>

definition sample_step :: "Hospital list \<times> RouteOptimization list" where
  "sample_step =
     route_for_assessment grid_km (\<lambda>s. 0) (\<lambda>k. Some ''ETA: 6 minutes'') Map.empty
       (sample_assessment ''ACC_01'' 9) (hospitals, [])"

definition sample_accidents :: "Accident list" where
  "sample_accidents =
     [\<lparr> acc_id = ''ACC_02'',
        acc_description = ''Multi-vehicle collision near Shalimar Bagh'',
        acc_location = ''Shalimar Bagh, Delhi'', acc_gps_lat = 28.70, acc_gps_lon = 77.10,
        acc_timestamp = ''2025-09-30 15:20:00'',
        acc_severity_indicators = [''multi-vehicle'', ''injuries''],
        acc_news_sources = [''NDTV''], acc_confidence_score = 0.85 \<rparr>]"

definition sample_run :: "Hospital list \<times> RouteOptimization list" where
  "sample_run =
     route_all grid_km (\<lambda>s. 0) (\<lambda>k. Some ''ETA: 6 minutes'')
       (accident_locations (Some sample_accidents))
       [sample_assessment ''ACC_01'' 9, sample_assessment ''ACC_02'' 5] (hospitals, [])"

definition critical_request :: FamilyEmergencyRequest where
  "critical_request = sample_request 70 CARDIAC False False False"

definition far_routes :: "RouteOptimization list" where
  "far_routes =
     calculate_route_with_cerebras grid_km (\<lambda>s. 1) (\<lambda>k. Some ''4'')
       (Some [sample_assessment ''ACC_07'' 7, sample_assessment ''ACC_02'' 5]) (Some sample_accidents)"

text \<open>Clock and draws at midday and in the afternoon peak; two critical cardiac
  patients north-west of the centre; a console session.\<close>

definition normal_feed :: "nat \<Rightarrow> bed_feed" where
  "normal_feed i = \<lparr> current_hour = 12, randint_beds = 12, randint_icu = 5 \<rparr>"

definition peak_feed :: "int \<Rightarrow> nat \<Rightarrow> bed_feed" where
  "peak_feed draw i = \<lparr> current_hour = 15, randint_beds = draw, randint_icu = 8 \<rparr>"

definition north_west_env :: intake_env where
  "north_west_env =
     \<lparr> chosen_base = delhi_central, uniform_lat = 0.05, uniform_lon = - 0.05,
       now_id = ''20250930153000'', now_stamp = ''2025-09-30 15:30:00'' \<rparr>"

definition second_request :: FamilyEmergencyRequest where
  "second_request =
     dashboard_collect_family_emergency north_west_env ''Anita Verma'' ''+91-9812345678''
       ''Mohan Verma'' 55 ''Rohini, Delhi'' ''Sector 9, Rohini, Delhi'' CARDIAC
       False False False ''Collapsed, not breathing''"

definition first_request :: FamilyEmergencyRequest where
  "first_request =
     dashboard_collect_family_emergency north_west_env ''Rajesh Kumar'' ''+91-9876543210''
       ''Sunita Kumar'' 70 ''Pitampura, Delhi'' ''Block A, Pitampura, Delhi'' CARDIAC
       False False False ''Chest pain, collapsed''"

text \<open>A patient between AIIMS and Safdarjung, at midday, with fewer beds drawn free at
  AIIMS; two accidents with their own coordinates.\<close>

definition between_env :: intake_env where
  "between_env =
     \<lparr> chosen_base = delhi_central, uniform_lat = - 0.0483982, uniform_lon = - 0.0007,
       now_id = ''20250930120500'', now_stamp = ''2025-09-30 12:05:00'' \<rparr>"

definition tie_request :: FamilyEmergencyRequest where
  "tie_request =
     dashboard_collect_family_emergency between_env ''Neha Singh'' ''+91-9811122233''
       ''Arjun Singh'' 30 ''Ansari Nagar, New Delhi'' ''Ring Road, Ansari Nagar'' ACCIDENT
       True True True ''Fall from scooter, bleeding from the leg''"

definition tie_feed :: "nat \<Rightarrow> bed_feed" where
  "tie_feed i =
     \<lparr> current_hour = 12, randint_beds = (if i = 0 then 16 else 10), randint_icu = 5 \<rparr>"

definition located_accidents :: "Accident list" where
  "located_accidents =
     sample_accidents @
     [\<lparr> acc_id = ''ACC_05'',
        acc_description = ''Two-wheeler hit by a bus on Ring Road'',
        acc_location = ''Ansari Nagar, New Delhi'', acc_gps_lat = 28.57, acc_gps_lon = 77.21,
        acc_timestamp = ''2025-09-30 15:25:00'',
        acc_severity_indicators = [''bus'', ''injuries''],
        acc_news_sources = [''Times of India''], acc_confidence_score = 0.9 \<rparr>]"

definition first_call :: "RouteOptimization list" where
  "first_call =
     calculate_route_with_cerebras grid_km (\<lambda>s. 0) (\<lambda>k. Some ''ETA: 6 minutes'')
       (Some [sample_assessment ''ACC_02'' 9, sample_assessment ''ACC_05'' 9])
       (Some located_accidents)"

definition second_call :: "RouteOptimization list" where
  "second_call =
     calculate_route_with_cerebras grid_km (\<lambda>s. 0) (\<lambda>k. Some ''ETA: 6 minutes'')
       (Some [sample_assessment ''ACC_05'' 9]) (Some located_accidents)"



section \<open>Verified properties\<close>

subsection \<open>The hospital search and one reservation\<close>

lemma py_int_nonneg: "0 \<le> x \<Longrightarrow> py_int x = \<lfloor>x\<rfloor>"
  by (simp add: py_int_def)

lemma closer_None: "closer d None"
  by (simp add: closer_def)

lemma same_but_distance_refl: "same_but_distance hs hs"
  by (simp add: same_but_distance_def)

lemma same_but_distance_trans:
  "same_but_distance a b \<Longrightarrow> same_but_distance b c \<Longrightarrow> same_but_distance a c"
  by (simp add: same_but_distance_def)

lemma same_but_distance_update:
  "i < length hs \<Longrightarrow> same_but_distance hs (hs[i := (hs ! i)\<lparr>hosp_distance_km := d\<rparr>])"
  by (simp add: same_but_distance_def map_update list_update_same_conv)

lemma same_but_distance_length: "same_but_distance hs hs' \<Longrightarrow> length hs' = length hs"
  unfolding same_but_distance_def by (metis length_map)

lemma same_but_distance_nth:
  assumes "same_but_distance hs hs'" "j < length hs"
  shows "hosp_available_beds (hs' ! j) = hosp_available_beds (hs ! j)
       \<and> hosp_gps_lat (hs' ! j) = hosp_gps_lat (hs ! j)
       \<and> hosp_gps_lon (hs' ! j) = hosp_gps_lon (hs ! j)
       \<and> hosp_trauma_level (hs' ! j) = hosp_trauma_level (hs ! j)
       \<and> hosp_id (hs' ! j) = hosp_id (hs ! j)"
proof -
  have l: "length hs' = length hs" using assms(1) by (rule same_but_distance_length)
  have "map (\<lambda>h. h\<lparr>hosp_distance_km := 0\<rparr>) hs' ! j = map (\<lambda>h. h\<lparr>hosp_distance_km := 0\<rparr>) hs ! j"
    using assms(1) by (simp add: same_but_distance_def)
  then have e: "(hs' ! j)\<lparr>hosp_distance_km := 0\<rparr> = (hs ! j)\<lparr>hosp_distance_km := 0\<rparr>"
    using assms(2) l by simp
  have "hosp_available_beds ((hs' ! j)\<lparr>hosp_distance_km := 0\<rparr>) = hosp_available_beds ((hs ! j)\<lparr>hosp_distance_km := 0\<rparr>)"
       "hosp_gps_lat ((hs' ! j)\<lparr>hosp_distance_km := 0\<rparr>) = hosp_gps_lat ((hs ! j)\<lparr>hosp_distance_km := 0\<rparr>)"
       "hosp_gps_lon ((hs' ! j)\<lparr>hosp_distance_km := 0\<rparr>) = hosp_gps_lon ((hs ! j)\<lparr>hosp_distance_km := 0\<rparr>)"
       "hosp_trauma_level ((hs' ! j)\<lparr>hosp_distance_km := 0\<rparr>) = hosp_trauma_level ((hs ! j)\<lparr>hosp_distance_km := 0\<rparr>)"
       "hosp_id ((hs' ! j)\<lparr>hosp_distance_km := 0\<rparr>) = hosp_id ((hs ! j)\<lparr>hosp_distance_km := 0\<rparr>)"
    using e by simp_all
  then show ?thesis by simp
qed

lemma nearest_inv_same:
  "same_but_distance hs hs' \<Longrightarrow> nearest_inv g loc hs best \<Longrightarrow> nearest_inv g loc hs' best"
  by (auto simp: nearest_inv_def same_but_distance_length same_but_distance_nth split: option.splits)

lemma find_nearest_inv:
  "set is \<subseteq> {..<length hs} \<Longrightarrow> nearest_inv g loc hs best \<Longrightarrow>
   find_nearest score g loc is (hs, best) = (hs', best') \<Longrightarrow>
   same_but_distance hs hs' \<and> nearest_inv g loc hs' best'"
proof (induction "is" arbitrary: hs best)
  case Nil
  then show ?case by (simp add: same_but_distance_refl)
next
  case (Cons i rest)
  let ?h = "hs ! i"
  let ?d = "g loc (hosp_gps_lat ?h, hosp_gps_lon ?h)"
  let ?hs1 = "hs[i := ?h\<lparr>hosp_distance_km := ?d\<rparr>]"
  from Cons.prems(1) have i: "i < length hs" and rest: "set rest \<subseteq> {..<length ?hs1}" by auto
  have s1: "same_but_distance hs ?hs1" using i by (rule same_but_distance_update)
  obtain b1 where step: "find_nearest score g loc (i # rest) (hs, best) = find_nearest score g loc rest (?hs1, b1)"
    and b1: "b1 = best \<or> (b1 = Some (?d, i) \<and> 0 < hosp_available_beds ?h)"
    by (simp add: Let_def)
  have "nearest_inv g loc hs b1"
    using b1 Cons.prems(2) i by (auto simp: nearest_inv_def)
  then have inv1: "nearest_inv g loc ?hs1 b1" using s1 by (rule nearest_inv_same[rotated])
  from Cons.prems(3) step have "find_nearest score g loc rest (?hs1, b1) = (hs', best')" by simp
  from Cons.IH[OF rest inv1 this] s1 show ?case
    by (blast intro: same_but_distance_trans)
qed

lemma nearest_available_inv:
  "set is \<subseteq> {..<length hs} \<Longrightarrow> nearest_inv g loc hs best \<Longrightarrow>
   nearest_inv g loc hs (nearest_available g loc hs is best)"
proof (induction "is" arbitrary: best)
  case Nil
  then show ?case by simp
next
  case (Cons i rest)
  then show ?case
    by (auto simp: Let_def nearest_inv_def)
qed


lemma route_step:
  assumes "route_for_assessment g ph c locs a (hs, routes) = (hs', routes')"
  shows "(routes' = routes \<and> same_but_distance hs hs')
       \<or> (\<exists>j hs1 r. j < length hs \<and> same_but_distance hs hs1
             \<and> 0 < hosp_available_beds (hs ! j)
             \<and> hs' = hs1[j := (hs1 ! j)\<lparr>hosp_available_beds := hosp_available_beds (hs1 ! j) - 1\<rparr>]
             \<and> routes' = routes @ [r]
             \<and> ro_target_hospital r = hs' ! j
             \<and> ro_estimated_time_normal r =
                 max (py_int ((g (accident_location ph locs a)
                                 (hosp_gps_lat (hs ! j), hosp_gps_lon (hs ! j))
                               / (if pcs_patient_critical_score a \<ge> 7 then 35 else 25)) * 60)) 5
             \<and> ro_estimated_time_green_corridor r =
                 optimize_eta_with_cerebras
                   \<lparr> rd_severity = Some (pcs_patient_critical_score a),
                     rd_distance_km = g (accident_location ph locs a)
                                        (hosp_gps_lat (hs ! j), hosp_gps_lon (hs ! j)),
                     rd_normal_time = Some (ro_estimated_time_normal r) \<rparr>
                   (c (length routes))
             \<and> ro_time_saved_minutes r =
                 max (ro_estimated_time_normal r - ro_estimated_time_green_corridor r) 1)"
proof -
  let ?loc = "accident_location ph locs a"
  let ?score = "pcs_patient_critical_score a"
  obtain hs1 best1 where fn: "find_nearest ?score g ?loc [0..<length hs] (hs, None) = (hs1, best1)"
    by (cases "find_nearest ?score g ?loc [0..<length hs] (hs, None)") auto
  have inv0: "nearest_inv g ?loc hs None" by (simp add: nearest_inv_def)
  have sub: "set [0..<length hs] \<subseteq> {..<length hs}" by auto
  from find_nearest_inv[OF sub inv0 fn]
  have same: "same_but_distance hs hs1" and inv1: "nearest_inv g ?loc hs1 best1" by auto
  have len1: "length hs1 = length hs" using same by (rule same_but_distance_length)
  let ?best2 = "if best1 = None then nearest_available g ?loc hs1 [0..<length hs1] None else best1"
  have inv2: "nearest_inv g ?loc hs1 ?best2"
  proof (cases "best1 = None")
    case True
    have "nearest_inv g ?loc hs1 (nearest_available g ?loc hs1 [0..<length hs1] None)"
      by (rule nearest_available_inv) (auto simp: nearest_inv_def)
    with True show ?thesis by simp
  next
    case False
    with inv1 show ?thesis by auto
  qed
  show ?thesis
  proof (cases ?best2)
    case None
    with assms fn have "hs' = hs1 \<and> routes' = routes"
      by (simp add: route_for_assessment_def Let_def)
    with same show ?thesis by simp
  next
    case (Some p)
    obtain d j where p: "p = (d, j)" by (cases p)
    from inv2 Some p have j: "j < length hs1" and beds: "0 < hosp_available_beds (hs1 ! j)"
      and d: "d = g ?loc (hosp_gps_lat (hs1 ! j), hosp_gps_lon (hs1 ! j))"
      by (simp_all add: nearest_inv_def)
    from same_but_distance_nth[OF same] j len1
    have nth: "hosp_available_beds (hs1 ! j) = hosp_available_beds (hs ! j)"
      "hosp_gps_lat (hs1 ! j) = hosp_gps_lat (hs ! j)"
      "hosp_gps_lon (hs1 ! j) = hosp_gps_lon (hs ! j)" by simp_all
    define speed :: real where "speed = (if ?score \<ge> 7 then 35 else 25)"
    define normal where "normal = max (py_int ((d / speed) * 60)) 5"
    define green where "green = optimize_eta_with_cerebras
        \<lparr> rd_severity = Some ?score, rd_distance_km = d, rd_normal_time = Some normal \<rparr>
        (c (length routes))"
    define reserved where
      "reserved = (hs1 ! j)\<lparr>hosp_available_beds := hosp_available_beds (hs1 ! j) - 1\<rparr>"
    define R where "R =
        \<lparr> ro_ambulance_id = ''AMB_'' @ str_nat (length routes + 1) @ ''##'',
          ro_accident_id = pcs_accident_id a,
          ro_route_coordinates = [?loc, (hosp_gps_lat (hs1 ! j), hosp_gps_lon (hs1 ! j))],
          ro_distance_km = py_round2 d,
          ro_estimated_time_normal = normal,
          ro_estimated_time_green_corridor = green,
          ro_time_saved_minutes = max (normal - green) 1,
          ro_target_hospital = reserved,
          ro_traffic_intersections = max (py_int (d * 1.5)) 2 \<rparr>"
    have res: "hs' = hs1[j := reserved] \<and> routes' = routes @ [R]"
      using assms fn Some p
      unfolding route_for_assessment_def R_def reserved_def green_def normal_def speed_def
      by (simp add: Let_def)
    have d': "d = g ?loc (hosp_gps_lat (hs ! j), hosp_gps_lon (hs ! j))"
      using d nth by simp
    have "j < length hs" using j len1 by simp
    moreover have "0 < hosp_available_beds (hs ! j)" using beds nth by simp
    moreover have "hs' = hs1[j := (hs1 ! j)\<lparr>hosp_available_beds := hosp_available_beds (hs1 ! j) - 1\<rparr>]"
      using res by (simp add: reserved_def)
    moreover have "ro_target_hospital R = hs' ! j"
      using res j by (simp add: R_def)
    moreover have "ro_estimated_time_normal R =
        max (py_int ((g ?loc (hosp_gps_lat (hs ! j), hosp_gps_lon (hs ! j))
                      / (if ?score \<ge> 7 then 35 else 25)) * 60)) 5"
      unfolding R_def normal_def speed_def d' by simp
    moreover have "ro_estimated_time_green_corridor R =
        optimize_eta_with_cerebras
          \<lparr> rd_severity = Some ?score,
            rd_distance_km = g ?loc (hosp_gps_lat (hs ! j), hosp_gps_lon (hs ! j)),
            rd_normal_time = Some (ro_estimated_time_normal R) \<rparr>
          (c (length routes))"
      unfolding R_def green_def d' by simp
    moreover have "ro_time_saved_minutes R =
        max (ro_estimated_time_normal R - ro_estimated_time_green_corridor R) 1"
      unfolding R_def by simp
    ultimately show ?thesis using same res by blast
  qed
qed


lemma same_but_distance_beds:
  assumes "same_but_distance hs hs'"
  shows "map hosp_available_beds hs' = map hosp_available_beds hs"
proof (rule nth_equalityI)
  show "length (map hosp_available_beds hs') = length (map hosp_available_beds hs)"
    using assms by (simp add: same_but_distance_length)
next
  fix i assume "i < length (map hosp_available_beds hs')"
  then have "i < length hs" "i < length hs'" using assms by (simp_all add: same_but_distance_length)
  then show "map hosp_available_beds hs' ! i = map hosp_available_beds hs ! i"
    using same_but_distance_nth[OF assms] by simp
qed

lemma route_step_beds:
  assumes "route_for_assessment g ph c locs a (hs, routes) = (hs1, routes1)"
  shows "length hs1 = length hs \<and>
      ((routes1 = routes \<and> map hosp_available_beds hs1 = map hosp_available_beds hs) \<or>
       (\<exists>j<length hs. 0 < hosp_available_beds (hs ! j) \<and> length routes1 = length routes + 1
           \<and> hosp_id (ro_target_hospital (last routes1)) = hosp_id (hs ! j)
           \<and> map hosp_available_beds hs1
               = (map hosp_available_beds hs)[j := hosp_available_beds (hs ! j) - 1]))"
  using route_step[OF assms]
proof (elim disjE exE conjE)
  assume "routes1 = routes" "same_but_distance hs hs1"
  then show ?thesis by (simp add: same_but_distance_beds same_but_distance_length)
next
  fix j hsm r
  assume j: "j < length hs" and same: "same_but_distance hs hsm"
    and pos: "0 < hosp_available_beds (hs ! j)"
    and hs1: "hs1 = hsm[j := (hsm ! j)\<lparr>hosp_available_beds := hosp_available_beds (hsm ! j) - 1\<rparr>]"
    and r: "routes1 = routes @ [r]" and tgt: "ro_target_hospital r = hs1 ! j"
  have len: "length hsm = length hs" using same by (rule same_but_distance_length)
  have nth: "hosp_available_beds (hsm ! j) = hosp_available_beds (hs ! j)"
    "hosp_id (hsm ! j) = hosp_id (hs ! j)"
    using same_but_distance_nth[OF same j] by simp_all
  have "map hosp_available_beds hs1
          = (map hosp_available_beds hsm)[j := hosp_available_beds (hsm ! j) - 1]"
    unfolding hs1 by (simp add: map_update)
  then have m: "map hosp_available_beds hs1
          = (map hosp_available_beds hs)[j := hosp_available_beds (hs ! j) - 1]"
    using same_but_distance_beds[OF same] nth by simp
  have "hosp_id (ro_target_hospital (last routes1)) = hosp_id (hs ! j)"
    using r tgt hs1 j len nth by simp
  with j pos r m hs1 len show ?thesis by auto
qed

lemma sum_list_update_int:
  "j < length xs \<Longrightarrow> sum_list (xs[j := v]) = sum_list xs - xs ! j + (v::int)"
proof (induction xs arbitrary: j)
  case Nil
  then show ?case by simp
next
  case (Cons x xs)
  then show ?case by (cases j) auto
qed

lemma route_all_beds:
  assumes "route_all g ph c locs as (hs, routes) = (hs2, routes2)"
    and "list_all (\<lambda>h. 0 \<le> hosp_available_beds h) hs"
  shows "length hs2 = length hs
       \<and> (\<forall>i<length hs. 0 \<le> hosp_available_beds (hs2 ! i)
              \<and> hosp_available_beds (hs2 ! i) \<le> hosp_available_beds (hs ! i))
       \<and> sum_list (map hosp_available_beds hs) - sum_list (map hosp_available_beds hs2)
           = int (length routes2) - int (length routes)"
  using assms
proof (induction as arbitrary: hs routes)
  case Nil
  then show ?case by (simp add: route_all_def list_all_length)
next
  case (Cons a as)
  obtain hs1 routes1 where step: "route_for_assessment g ph c locs a (hs, routes) = (hs1, routes1)"
    by (cases "route_for_assessment g ph c locs a (hs, routes)") auto
  with Cons.prems(1) have rest: "route_all g ph c locs as (hs1, routes1) = (hs2, routes2)"
    by (simp add: route_all_def)
  note sb = route_step_beds[OF step]
  then have len1: "length hs1 = length hs" by simp
  have nonneg: "\<And>i. i < length hs \<Longrightarrow> 0 \<le> hosp_available_beds (hs ! i)"
    using Cons.prems(2) by (simp add: list_all_length)
  have bnd: "\<forall>i<length hs. 0 \<le> hosp_available_beds (hs1 ! i)
              \<and> hosp_available_beds (hs1 ! i) \<le> hosp_available_beds (hs ! i)"
   and sm: "sum_list (map hosp_available_beds hs) - sum_list (map hosp_available_beds hs1)
           = int (length routes1) - int (length routes)"
  proof -
    from sb have "(routes1 = routes \<and> map hosp_available_beds hs1 = map hosp_available_beds hs) \<or>
       (\<exists>j<length hs. 0 < hosp_available_beds (hs ! j) \<and> length routes1 = length routes + 1
           \<and> map hosp_available_beds hs1
               = (map hosp_available_beds hs)[j := hosp_available_beds (hs ! j) - 1])" by blast
    then show "\<forall>i<length hs. 0 \<le> hosp_available_beds (hs1 ! i)
              \<and> hosp_available_beds (hs1 ! i) \<le> hosp_available_beds (hs ! i)"
    proof (elim disjE exE conjE)
      assume "map hosp_available_beds hs1 = map hosp_available_beds hs"
      then have "\<And>i. i < length hs \<Longrightarrow> hosp_available_beds (hs1 ! i) = hosp_available_beds (hs ! i)"
        using len1 by (metis nth_map)
      then show ?thesis using nonneg by simp
    next
      fix j assume j: "j < length hs" "0 < hosp_available_beds (hs ! j)"
        and m: "map hosp_available_beds hs1
               = (map hosp_available_beds hs)[j := hosp_available_beds (hs ! j) - 1]"
      have "\<And>i. i < length hs \<Longrightarrow> hosp_available_beds (hs1 ! i)
           = ((map hosp_available_beds hs)[j := hosp_available_beds (hs ! j) - 1]) ! i"
        using len1 m by (metis nth_map)
      then show ?thesis using nonneg j by (auto simp: nth_list_update)
    qed
    from sb show "sum_list (map hosp_available_beds hs) - sum_list (map hosp_available_beds hs1)
           = int (length routes1) - int (length routes)"
      by (auto simp: sum_list_update_int)
  qed
  have all1: "list_all (\<lambda>h. 0 \<le> hosp_available_beds h) hs1"
    using bnd len1 by (simp add: list_all_length)
  from Cons.IH[OF rest all1] len1 bnd sm show ?case
    by (auto intro: order_trans)
qed

subsection \<open>Arithmetic of the ETA estimators\<close>

lemma py_int_ratio:
  assumes "0 \<le> n"
  shows "py_int (real_of_int n * numeral a / numeral b) = (n * numeral a) div numeral b"
proof -
  have "(real_of_int n * numeral a / numeral b) = of_int (n * numeral a) / of_int (numeral b)"
    by simp
  then have "\<lfloor>real_of_int n * numeral a / numeral b\<rfloor> = (n * numeral a) div numeral b"
    by (simp only: floor_divide_of_int_eq)
  moreover have "(0::real) \<le> real_of_int n * numeral a / numeral b" using assms by simp
  ultimately show ?thesis by (simp add: py_int_def del: of_int_mult)
qed

lemma py_int_quot:
  assumes "0 \<le> n"
  shows "py_int (real_of_int n / numeral b) = n div numeral b"
proof -
  have "(real_of_int n / numeral b) = of_int n / of_int (numeral b)" by simp
  then have "\<lfloor>real_of_int n / numeral b\<rfloor> = n div numeral b"
    by (simp only: floor_divide_of_int_eq)
  moreover have "(0::real) \<le> real_of_int n / numeral b" using assms by simp
  ultimately show ?thesis by (simp add: py_int_def)
qed

lemma eta_fallback_eq:
  "0 \<le> n \<Longrightarrow> eta_fallback s n =
     max (if s < 6 then (n * 7) div 10 else if s < 8 then (n * 3) div 5 else n div 2) 3"
  by (simp add: eta_fallback_def Let_def py_int_ratio py_int_quot)

lemma optimize_eta_oracle:
  assumes "0 \<le> n" "first_digits result \<noteq> []"
  shows "optimize_eta_with_cerebras
           \<lparr> rd_severity = Some s, rd_distance_km = d, rd_normal_time = Some n \<rparr> (Some result)
         = max (max (n div 2) 3) (min (int_of_digits (first_digits result)) ((n * 9) div 10))"
  using assms by (simp add: optimize_eta_with_cerebras_def Let_def py_int_ratio py_int_quot)

lemma clamp_bounds:
  "5 \<le> (n::int) \<Longrightarrow>
     max (n div 2) 3 \<le> max (max (n div 2) 3) (min x ((n * 9) div 10))
   \<and> max (max (n div 2) 3) (min x ((n * 9) div 10)) \<le> (n * 9) div 10
   \<and> (n * 9) div 10 < n"
  by (auto simp: max_def min_def)

lemma fallback_bounds:
  "5 \<le> (n::int) \<Longrightarrow>
     3 \<le> max (if s < 6 then (n * 7) div 10 else if s < 8 then (n * 3) div 5 else n div 2) 3
   \<and> max (if (s::int) < 6 then (n * 7) div 10 else if s < 8 then (n * 3) div 5 else n div 2) 3 < n"
  by (auto simp: max_def)

lemma optimize_eta_range:
  assumes "5 \<le> n"
  shows "3 \<le> optimize_eta_with_cerebras
           \<lparr> rd_severity = Some s, rd_distance_km = d, rd_normal_time = Some n \<rparr> resp
       \<and> optimize_eta_with_cerebras
           \<lparr> rd_severity = Some s, rd_distance_km = d, rd_normal_time = Some n \<rparr> resp < n"
proof (cases "\<exists>result. resp = Some result \<and> first_digits result \<noteq> []")
  case True
  then obtain result where r: "resp = Some result" "first_digits result \<noteq> []" by blast
  have n: "0 \<le> n" using assms by simp
  show ?thesis
    unfolding r(1) optimize_eta_oracle[OF n r(2)]
    using clamp_bounds[OF assms, of "int_of_digits (first_digits result)"] by linarith
next
  case False
  then have "optimize_eta_with_cerebras
           \<lparr> rd_severity = Some s, rd_distance_km = d, rd_normal_time = Some n \<rparr> resp
       = eta_fallback s n"
    by (cases resp) (auto simp: optimize_eta_with_cerebras_def Let_def)
  moreover have "0 \<le> n" using assms by simp
  ultimately show ?thesis using fallback_bounds[OF assms, of s] by (simp add: eta_fallback_eq)
qed


lemma patient_route_fields:
  "estimated_time_normal (calculate_patient_route hour req h a)
     = py_int ((distance_km h / base_speed_at hour) * 60)
   \<and> estimated_time_green_corridor (calculate_patient_route hour req h a)
     = (if green_corridor_required a
        then py_int (of_int (estimated_time_normal (calculate_patient_route hour req h a)) * 0.55)
        else py_int (of_int (estimated_time_normal (calculate_patient_route hour req h a)) * 0.85))
   \<and> time_saved_minutes (calculate_patient_route hour req h a)
     = estimated_time_normal (calculate_patient_route hour req h a)
       - estimated_time_green_corridor (calculate_patient_route hour req h a)
   \<and> pr_distance_km (calculate_patient_route hour req h a) = distance_km h
   \<and> pr_request_id (calculate_patient_route hour req h a) = request_id req"
  by (simp add: calculate_patient_route_def base_speed_at_def Let_def)

lemma base_speed_pos: "0 < base_speed_at hour"
  by (simp add: base_speed_at_def)

lemma patient_normal_nonneg:
  assumes "0 \<le> distance_km h"
  shows "0 \<le> estimated_time_normal (calculate_patient_route hour req h a)"
proof -
  have "0 \<le> (distance_km h / base_speed_at hour) * 60"
    using assms base_speed_pos[of hour] by simp
  then show ?thesis
    by (simp add: patient_route_fields py_int_def)
qed

lemma patient_green_le:
  assumes "0 \<le> distance_km h"
  shows "0 \<le> estimated_time_green_corridor (calculate_patient_route hour req h a)
       \<and> estimated_time_green_corridor (calculate_patient_route hour req h a)
           \<le> estimated_time_normal (calculate_patient_route hour req h a)"
proof -
  let ?n = "estimated_time_normal (calculate_patient_route hour req h a)"
  have n: "0 \<le> ?n" using assms by (rule patient_normal_nonneg)
  have g: "estimated_time_green_corridor (calculate_patient_route hour req h a)
     = (if green_corridor_required a then (?n * 11) div 20 else (?n * 17) div 20)"
    using patient_route_fields[of hour req h a] n by (simp add: py_int_ratio)
  show ?thesis unfolding g using n by auto
qed


lemma route_step_times:
  assumes "route_for_assessment g ph c locs a (hs, routes) = (hs1, routes1)"
    and "routes1 \<noteq> routes"
  shows "\<exists>j<length hs. hosp_id (ro_target_hospital (last routes1)) = hosp_id (hs ! j)
       \<and> ro_estimated_time_normal (last routes1) =
           max (py_int ((g (accident_location ph locs a)
                           (hosp_gps_lat (hs ! j), hosp_gps_lon (hs ! j))
                         / (if pcs_patient_critical_score a \<ge> 7 then 35 else 25)) * 60)) 5
       \<and> ro_estimated_time_green_corridor (last routes1) =
           optimize_eta_with_cerebras
             \<lparr> rd_severity = Some (pcs_patient_critical_score a),
               rd_distance_km = g (accident_location ph locs a)
                                  (hosp_gps_lat (hs ! j), hosp_gps_lon (hs ! j)),
               rd_normal_time = Some (ro_estimated_time_normal (last routes1)) \<rparr>
             (c (length routes))
       \<and> ro_time_saved_minutes (last routes1) =
           max (ro_estimated_time_normal (last routes1)
                - ro_estimated_time_green_corridor (last routes1)) 1"
  using route_step[OF assms(1)] assms(2)
proof (elim disjE exE conjE)
  assume "routes1 = routes" "routes1 \<noteq> routes"
  then show ?thesis by simp
next
  fix j hsm r
  assume j: "j < length hs" and same: "same_but_distance hs hsm"
    and hs1: "hs1 = hsm[j := (hsm ! j)\<lparr>hosp_available_beds := hosp_available_beds (hsm ! j) - 1\<rparr>]"
    and r: "routes1 = routes @ [r]" and tgt: "ro_target_hospital r = hs1 ! j"
    and n: "ro_estimated_time_normal r =
           max (py_int ((g (accident_location ph locs a)
                           (hosp_gps_lat (hs ! j), hosp_gps_lon (hs ! j))
                         / (if pcs_patient_critical_score a \<ge> 7 then 35 else 25)) * 60)) 5"
    and gr: "ro_estimated_time_green_corridor r =
           optimize_eta_with_cerebras
             \<lparr> rd_severity = Some (pcs_patient_critical_score a),
               rd_distance_km = g (accident_location ph locs a)
                                  (hosp_gps_lat (hs ! j), hosp_gps_lon (hs ! j)),
               rd_normal_time = Some (ro_estimated_time_normal r) \<rparr>
             (c (length routes))"
    and sv: "ro_time_saved_minutes r =
           max (ro_estimated_time_normal r - ro_estimated_time_green_corridor r) 1"
  have len: "length hsm = length hs" using same by (rule same_but_distance_length)
  have "hosp_id (hsm ! j) = hosp_id (hs ! j)"
    using same_but_distance_nth[OF same j] by simp
  then have "hosp_id (ro_target_hospital r) = hosp_id (hs ! j)"
    using tgt hs1 j len by simp
  moreover have "last routes1 = r" using r by simp
  ultimately show ?thesis using j n gr sv by (intro exI[of _ j]) simp
qed

lemma tenths_le: "(g::int) \<le> (n * 9) div 10 \<Longrightarrow> 10 * g \<le> 9 * n"
  by presburger

lemma half_le: "max ((n::int) div 2) 3 \<le> g \<Longrightarrow> n - 1 \<le> 2 * g"
  unfolding max_def by presburger

lemma tenths_real: "(g::int) \<le> (n * 9) div 10 \<Longrightarrow> real_of_int g \<le> 0.9 * real_of_int n"
proof -
  assume "g \<le> (n * 9) div 10"
  then have "10 * g \<le> 9 * n" by (rule tenths_le)
  then have "real_of_int (10 * g) \<le> real_of_int (9 * n)" by (simp only: of_int_le_iff)
  then show ?thesis by simp
qed

lemma half_real: "max ((n::int) div 2) 3 \<le> g \<Longrightarrow> 0.5 * real_of_int n - 0.5 \<le> real_of_int g"
proof -
  assume "max (n div 2) 3 \<le> g"
  then have "n - 1 \<le> 2 * g" by (rule half_le)
  then have "real_of_int (n - 1) \<le> real_of_int (2 * g)" by (simp only: of_int_le_iff)
  then show ?thesis by simp
qed

subsection \<open>Priority ETA\<close>

text \<open>
  Claim C3, as the code has it. Every route of the real-time estimator has a baseline of
  at least 5 minutes, a priority ETA of at least 3 minutes and strictly below the
  baseline, and a time saved equal to baseline minus priority ETA, hence positive. When
  the oracle's reply holds a number, the priority ETA is that number clamped to the whole
  minutes from max(baseline div 2, 3) to (9 * baseline) div 10: it is at most 0.9 times
  the baseline, and at least 0.5 times the baseline less half a minute (the lower bound
  is truncated to a whole minute, so it can lie below half the baseline). Every route of
  the patient workflow, for a distance that is not negative, has time saved equal to
  baseline minus priority ETA, not negative, and a priority ETA at most the baseline.
\<close>

theorem priority_eta_bounds:
  "(route_for_assessment g ph c locs a (hs, routes) = (hs1, routes1) \<and> routes1 \<noteq> routes \<longrightarrow>
      5 \<le> ro_estimated_time_normal (last routes1)
      \<and> ro_time_saved_minutes (last routes1)
          = ro_estimated_time_normal (last routes1)
            - ro_estimated_time_green_corridor (last routes1)
      \<and> 0 < ro_time_saved_minutes (last routes1)
      \<and> ro_estimated_time_green_corridor (last routes1) < ro_estimated_time_normal (last routes1)
      \<and> 3 \<le> ro_estimated_time_green_corridor (last routes1)
      \<and> (\<forall>result. c (length routes) = Some result \<and> first_digits result \<noteq> [] \<longrightarrow>
            ro_estimated_time_green_corridor (last routes1)
              = max (max (ro_estimated_time_normal (last routes1) div 2) 3)
                  (min (int_of_digits (first_digits result))
                       ((ro_estimated_time_normal (last routes1) * 9) div 10))
            \<and> max (ro_estimated_time_normal (last routes1) div 2) 3
                \<le> ro_estimated_time_green_corridor (last routes1)
            \<and> ro_estimated_time_green_corridor (last routes1)
                \<le> (ro_estimated_time_normal (last routes1) * 9) div 10
            \<and> real_of_int (ro_estimated_time_green_corridor (last routes1))
                \<le> 0.9 * real_of_int (ro_estimated_time_normal (last routes1))
            \<and> 0.5 * real_of_int (ro_estimated_time_normal (last routes1)) - 0.5
                \<le> real_of_int (ro_estimated_time_green_corridor (last routes1))))
   \<and> (0 \<le> distance_km h \<longrightarrow>
        time_saved_minutes (calculate_patient_route hour req h pa)
          = estimated_time_normal (calculate_patient_route hour req h pa)
            - estimated_time_green_corridor (calculate_patient_route hour req h pa)
        \<and> 0 \<le> time_saved_minutes (calculate_patient_route hour req h pa)
        \<and> estimated_time_green_corridor (calculate_patient_route hour req h pa)
            \<le> estimated_time_normal (calculate_patient_route hour req h pa))"
proof (intro conjI impI)
  assume "0 \<le> distance_km h"
  from patient_green_le[OF this, of hour req pa] patient_route_fields[of hour req h pa]
  show "time_saved_minutes (calculate_patient_route hour req h pa)
          = estimated_time_normal (calculate_patient_route hour req h pa)
            - estimated_time_green_corridor (calculate_patient_route hour req h pa)"
    "0 \<le> time_saved_minutes (calculate_patient_route hour req h pa)"
    "estimated_time_green_corridor (calculate_patient_route hour req h pa)
            \<le> estimated_time_normal (calculate_patient_route hour req h pa)"
    by linarith+
next
  assume A: "route_for_assessment g ph c locs a (hs, routes) = (hs1, routes1) \<and> routes1 \<noteq> routes"
  let ?n = "ro_estimated_time_normal (last routes1)"
  let ?g = "ro_estimated_time_green_corridor (last routes1)"
  from A have st: "route_for_assessment g ph c locs a (hs, routes) = (hs1, routes1)"
    and ne: "routes1 \<noteq> routes" by simp_all
  from route_step_times[OF st ne]
  obtain j where nj: "?n = max (py_int ((g (accident_location ph locs a)
                           (hosp_gps_lat (hs ! j), hosp_gps_lon (hs ! j))
                         / (if pcs_patient_critical_score a \<ge> 7 then 35 else 25)) * 60)) 5"
    and gj: "?g = optimize_eta_with_cerebras
             \<lparr> rd_severity = Some (pcs_patient_critical_score a),
               rd_distance_km = g (accident_location ph locs a)
                                  (hosp_gps_lat (hs ! j), hosp_gps_lon (hs ! j)),
               rd_normal_time = Some ?n \<rparr> (c (length routes))"
    and sv: "ro_time_saved_minutes (last routes1) = max (?n - ?g) 1"
    by blast
  define d where "d = g (accident_location ph locs a) (hosp_gps_lat (hs ! j), hosp_gps_lon (hs ! j))"
  have n5: "5 \<le> ?n" by (subst nj) simp
  have g: "?g = optimize_eta_with_cerebras
             \<lparr> rd_severity = Some (pcs_patient_critical_score a), rd_distance_km = d,
               rd_normal_time = Some ?n \<rparr> (c (length routes))"
    unfolding d_def by (rule gj)
  from optimize_eta_range[OF n5, of "pcs_patient_critical_score a" d "c (length routes)"] g
  have rng: "3 \<le> ?g" "?g < ?n" by simp_all
  show "5 \<le> ?n" by (rule n5)
  show "ro_time_saved_minutes (last routes1) = ?n - ?g" using sv rng by simp
  show "0 < ro_time_saved_minutes (last routes1)" using sv by simp
  show "?g < ?n" by (rule rng)
  show "3 \<le> ?g" by (rule rng)
  show "\<forall>result. c (length routes) = Some result \<and> first_digits result \<noteq> [] \<longrightarrow>
            ?g = max (max (?n div 2) 3) (min (int_of_digits (first_digits result)) ((?n * 9) div 10))
            \<and> max (?n div 2) 3 \<le> ?g
            \<and> ?g \<le> (?n * 9) div 10
            \<and> real_of_int ?g \<le> 0.9 * real_of_int ?n
            \<and> 0.5 * real_of_int ?n - 0.5 \<le> real_of_int ?g"
  proof (intro allI impI)
    fix result assume R: "c (length routes) = Some result \<and> first_digits result \<noteq> []"
    have n0: "0 \<le> ?n" using n5 by simp
    have e: "?g = max (max (?n div 2) 3) (min (int_of_digits (first_digits result)) ((?n * 9) div 10))"
      using g R optimize_eta_oracle[OF n0, of result "pcs_patient_critical_score a" d] by simp
    have lo: "max (?n div 2) 3 \<le> ?g"
      by (subst e) (rule clamp_bounds[OF n5, THEN conjunct1])
    have hi: "?g \<le> (?n * 9) div 10"
      by (subst e) (rule clamp_bounds[OF n5, THEN conjunct2, THEN conjunct1])
    have r1: "real_of_int ?g \<le> 0.9 * real_of_int ?n" using hi by (rule tenths_real)
    have r2: "0.5 * real_of_int ?n - 0.5 \<le> real_of_int ?g" using lo by (rule half_real)
    from e lo hi r1 r2 show "?g = max (max (?n div 2) 3) (min (int_of_digits (first_digits result)) ((?n * 9) div 10))
            \<and> max (?n div 2) 3 \<le> ?g
            \<and> ?g \<le> (?n * 9) div 10
            \<and> real_of_int ?g \<le> 0.9 * real_of_int ?n
            \<and> 0.5 * real_of_int ?n - 0.5 \<le> real_of_int ?g" by blast
  qed
qed



theorem priority_eta_bounds_witness:
  "snd sample_step \<noteq> [] \<and> first_digits ''ETA: 6 minutes'' \<noteq> []
   \<and> ro_estimated_time_normal (last (snd sample_step)) = 9
   \<and> ro_estimated_time_green_corridor (last (snd sample_step)) = 6
   \<and> ro_time_saved_minutes (last (snd sample_step)) = 3
   \<and> max (ro_estimated_time_normal (last (snd sample_step)) div 2) 3
        \<le> ro_estimated_time_green_corridor (last (snd sample_step))
   \<and> ro_estimated_time_green_corridor (last (snd sample_step))
        \<le> (ro_estimated_time_normal (last (snd sample_step)) * 9) div 10
   \<and> 0 \<le> distance_km (sample_hospital 12.5)
   \<and> 0 \<le> time_saved_minutes
           (calculate_patient_route 8 (sample_request 70 CARDIAC False False False)
              (sample_hospital 12.5)
              (assess_patient_with_ai (sample_request 70 CARDIAC False False False)))"
proof -
  have ev: "snd sample_step \<noteq> [] \<and> first_digits ''ETA: 6 minutes'' \<noteq> []
     \<and> ro_estimated_time_normal (last (snd sample_step)) = 9
     \<and> ro_estimated_time_green_corridor (last (snd sample_step)) = 6"
    by code_simp
  have st: "route_for_assessment grid_km (\<lambda>s. 0) (\<lambda>k. Some ''ETA: 6 minutes'') Map.empty
       (sample_assessment ''ACC_01'' 9) (hospitals, []) = (fst sample_step, snd sample_step)"
    by (simp add: sample_step_def)
  have d: "0 \<le> distance_km (sample_hospital 12.5)" by (simp add: sample_hospital_def)
  note th = priority_eta_bounds[of grid_km "\<lambda>s. 0" "\<lambda>k. Some ''ETA: 6 minutes''" Map.empty
      "sample_assessment ''ACC_01'' 9" hospitals "[]" "fst sample_step" "snd sample_step"
      "sample_hospital 12.5" 8 "sample_request 70 CARDIAC False False False"
      "assess_patient_with_ai (sample_request 70 CARDIAC False False False)"]
  from th st ev d show ?thesis by simp
qed


text \<open>
  The claim as worded, with the lower bound 0.5 times the baseline, fails: at 3 km and
  score 5 the baseline is 7 minutes, the oracle answers 1, and the priority ETA is 3
  minutes, below 3.5.
\<close>

theorem priority_eta_bounds_counterexample:
  "map (\<lambda>r. (ro_estimated_time_normal r, ro_estimated_time_green_corridor r))
     (calculate_route_with_cerebras (\<lambda>p q. 3) (\<lambda>s. 0) (\<lambda>k. Some ''1'')
        (Some [sample_assessment ''ACC_01'' 5]) None) = [(7, 3)]
   \<and> first_digits ''1'' \<noteq> []
   \<and> \<not> spec_oracle_bounds 7 3"
  by code_simp

subsection \<open>Bed counters across reservations\<close>

text \<open>
  Claim C1, as the code has it. One pass of the matcher over an assessment either
  reserves nothing and leaves every bed counter as it was, or appends one route and
  lowers by exactly 1 the counter of one hospital, the route's target, whose counter was
  strictly positive; no other counter changes. Over any sequence of assessments, from a
  hospital list with no negative counter, every counter stays at least 0 and at most its
  starting value, and the counters have dropped in total by the number of routes made.
  The reservations of one call of \<open>calculate_route_with_cerebras\<close> are such a
  sequence, and it starts from the list the call builds, with 15, 8 and 12 beds: within
  the call the three counters stay between 0 and 15, 8 and 12, and 35 less their sum is
  the number of routes. The counters belong to the call; nothing of them is kept for the
  next one.
\<close>

theorem bed_counters_across_reservations:
  "(route_for_assessment g ph c locs a (hs, routes) = (hs1, routes1) \<longrightarrow>
      length hs1 = length hs \<and>
      ((routes1 = routes \<and> map hosp_available_beds hs1 = map hosp_available_beds hs) \<or>
       (\<exists>j<length hs. 0 < hosp_available_beds (hs ! j) \<and> length routes1 = length routes + 1
           \<and> hosp_id (ro_target_hospital (last routes1)) = hosp_id (hs ! j)
           \<and> map hosp_available_beds hs1
               = (map hosp_available_beds hs)[j := hosp_available_beds (hs ! j) - 1])))
   \<and> (route_all g ph c locs as (hs, routes) = (hs2, routes2)
        \<and> list_all (\<lambda>h. 0 \<le> hosp_available_beds h) hs \<longrightarrow>
      length hs2 = length hs
       \<and> (\<forall>i<length hs. 0 \<le> hosp_available_beds (hs2 ! i)
              \<and> hosp_available_beds (hs2 ! i) \<le> hosp_available_beds (hs ! i))
       \<and> sum_list (map hosp_available_beds hs) - sum_list (map hosp_available_beds hs2)
           = int (length routes2) - int (length routes))
   \<and> calculate_route_with_cerebras g ph c (Some as) accident_data
       = snd (route_all g ph c (accident_locations accident_data) as (hospitals, []))
   \<and> map hosp_available_beds hospitals = [15, 8, 12]
   \<and> (route_all g ph c locs as (hospitals, []) = (hs3, routes3) \<longrightarrow>
        length hs3 = 3
        \<and> 0 \<le> hosp_available_beds (hs3 ! 0) \<and> hosp_available_beds (hs3 ! 0) \<le> 15
        \<and> 0 \<le> hosp_available_beds (hs3 ! 1) \<and> hosp_available_beds (hs3 ! 1) \<le> 8
        \<and> 0 \<le> hosp_available_beds (hs3 ! 2) \<and> hosp_available_beds (hs3 ! 2) \<le> 12
        \<and> 35 - sum_list (map hosp_available_beds hs3) = int (length routes3))"
proof -
  have step_run:
    "(route_for_assessment g ph c locs a (hs, routes) = (hs1, routes1) \<longrightarrow>
      length hs1 = length hs \<and>
      ((routes1 = routes \<and> map hosp_available_beds hs1 = map hosp_available_beds hs) \<or>
       (\<exists>j<length hs. 0 < hosp_available_beds (hs ! j) \<and> length routes1 = length routes + 1
           \<and> hosp_id (ro_target_hospital (last routes1)) = hosp_id (hs ! j)
           \<and> map hosp_available_beds hs1
               = (map hosp_available_beds hs)[j := hosp_available_beds (hs ! j) - 1])))
   \<and> (route_all g ph c locs as (hs, routes) = (hs2, routes2)
        \<and> list_all (\<lambda>h. 0 \<le> hosp_available_beds h) hs \<longrightarrow>
      length hs2 = length hs
       \<and> (\<forall>i<length hs. 0 \<le> hosp_available_beds (hs2 ! i)
              \<and> hosp_available_beds (hs2 ! i) \<le> hosp_available_beds (hs ! i))
       \<and> sum_list (map hosp_available_beds hs) - sum_list (map hosp_available_beds hs2)
           = int (length routes2) - int (length routes))"
    using route_step_beds[of g ph c locs a hs routes hs1 routes1]
      route_all_beds[of g ph c locs as hs routes hs2 routes2]
    by blast
  have call: "calculate_route_with_cerebras g ph c (Some as) accident_data
       = snd (route_all g ph c (accident_locations accident_data) as (hospitals, []))"
    by (simp add: calculate_route_with_cerebras_def)
  have fresh: "map hosp_available_beds hospitals = [15, 8, 12]"
    by (simp add: hospitals_def)
  have one_call: "route_all g ph c locs as (hospitals, []) = (hs3, routes3) \<longrightarrow>
        length hs3 = 3
        \<and> 0 \<le> hosp_available_beds (hs3 ! 0) \<and> hosp_available_beds (hs3 ! 0) \<le> 15
        \<and> 0 \<le> hosp_available_beds (hs3 ! 1) \<and> hosp_available_beds (hs3 ! 1) \<le> 8
        \<and> 0 \<le> hosp_available_beds (hs3 ! 2) \<and> hosp_available_beds (hs3 ! 2) \<le> 12
        \<and> 35 - sum_list (map hosp_available_beds hs3) = int (length routes3)"
  proof
    assume r: "route_all g ph c locs as (hospitals, []) = (hs3, routes3)"
    have h0: "list_all (\<lambda>h. 0 \<le> hosp_available_beds h) hospitals"
      by (simp add: hospitals_def)
    have hv: "length hospitals = 3" "hosp_available_beds (hospitals ! 0) = 15"
      "hosp_available_beds (hospitals ! 1) = 8" "hosp_available_beds (hospitals ! 2) = 12"
      "sum_list (map hosp_available_beds hospitals) = 35"
      by (simp_all add: hospitals_def)
    from route_all_beds[OF r h0]
    have l: "length hs3 = length hospitals"
      and b: "\<forall>i<length hospitals. 0 \<le> hosp_available_beds (hs3 ! i)
              \<and> hosp_available_beds (hs3 ! i) \<le> hosp_available_beds (hospitals ! i)"
      and sm: "sum_list (map hosp_available_beds hospitals)
                 - sum_list (map hosp_available_beds hs3) = int (length routes3) - int (length ([]::RouteOptimization list))"
      by blast+
    from b[rule_format, of 0] b[rule_format, of 1] b[rule_format, of 2] hv l sm
    show "length hs3 = 3
        \<and> 0 \<le> hosp_available_beds (hs3 ! 0) \<and> hosp_available_beds (hs3 ! 0) \<le> 15
        \<and> 0 \<le> hosp_available_beds (hs3 ! 1) \<and> hosp_available_beds (hs3 ! 1) \<le> 8
        \<and> 0 \<le> hosp_available_beds (hs3 ! 2) \<and> hosp_available_beds (hs3 ! 2) \<le> 12
        \<and> 35 - sum_list (map hosp_available_beds hs3) = int (length routes3)"
      by simp
  qed
  from step_run call fresh one_call show ?thesis by blast
qed

theorem bed_counters_across_reservations_witness:
  "list_all (\<lambda>h. 0 \<le> hosp_available_beds h) hospitals
   \<and> map hosp_available_beds hospitals = [15, 8, 12]
   \<and> map hosp_available_beds (fst sample_step) = [14, 8, 12]
   \<and> length (snd sample_step) = 1
   \<and> length (fst sample_step) = length hospitals
   \<and> map hosp_available_beds (fst sample_run) = [14, 7, 12]
   \<and> length (snd sample_run) = 2
   \<and> length (fst sample_run) = length hospitals
   \<and> sum_list (map hosp_available_beds hospitals)
        - sum_list (map hosp_available_beds (fst sample_run))
      = int (length (snd sample_run)) - int (length ([] :: RouteOptimization list))
   \<and> 35 - sum_list (map hosp_available_beds (fst sample_run)) = int (length (snd sample_run))"
proof -
  have h: "list_all (\<lambda>h. 0 \<le> hosp_available_beds h) hospitals
      \<and> map hosp_available_beds hospitals = [15, 8, 12]"
    by (simp add: hospitals_def)
  have ev: "map hosp_available_beds (fst sample_run) = [14, 7, 12] \<and> length (snd sample_run) = 2
      \<and> map hosp_available_beds (fst sample_step) = [14, 8, 12] \<and> length (snd sample_step) = 1"
    by code_simp
  have step: "route_for_assessment grid_km (\<lambda>s. 0) (\<lambda>k. Some ''ETA: 6 minutes'') Map.empty
       (sample_assessment ''ACC_01'' 9) (hospitals, []) = (fst sample_step, snd sample_step)"
    by (simp add: sample_step_def)
  have run: "route_all grid_km (\<lambda>s. 0) (\<lambda>k. Some ''ETA: 6 minutes'')
       (accident_locations (Some sample_accidents))
       [sample_assessment ''ACC_01'' 9, sample_assessment ''ACC_02'' 5] (hospitals, [])
     = (fst sample_run, snd sample_run)"
    by (simp add: sample_run_def)
  from bed_counters_across_reservations[THEN conjunct1, rule_format, OF step]
  have s1: "length (fst sample_step) = length hospitals" by blast
  from bed_counters_across_reservations[THEN conjunct2, THEN conjunct1, rule_format,
      OF conjI, OF run conjunct1[OF h]]
  have s2: "length (fst sample_run) = length hospitals"
    and s3: "sum_list (map hosp_available_beds hospitals)
        - sum_list (map hosp_available_beds (fst sample_run))
      = int (length (snd sample_run)) - int (length ([] :: RouteOptimization list))"
    by blast+
  from bed_counters_across_reservations[THEN conjunct2, THEN conjunct2, THEN conjunct2,
      THEN conjunct2, rule_format, OF run]
  have s4: "35 - sum_list (map hosp_available_beds (fst sample_run)) = int (length (snd sample_run))"
    by blast
  from h ev s1 s2 s3 s4 show ?thesis by blast
qed

text \<open>
  The claim as worded fails across calls: a call with two critical patients reserves
  twice at AIIMS_TRAUMA and leaves it 13 beds; the next call, with one critical patient,
  reserves there again and its counter reads 14, more than after the reservation
  before.
\<close>

theorem bed_counters_across_reservations_counterexample:
  "map (hosp_id \<circ> ro_target_hospital) first_call = [''AIIMS_TRAUMA'', ''AIIMS_TRAUMA'']
   \<and> hosp_available_beds (ro_target_hospital (last first_call)) = 13
   \<and> map (\<lambda>r. (hosp_id (ro_target_hospital r), hosp_available_beds (ro_target_hospital r)))
        second_call = [(''AIIMS_TRAUMA'', 14)]"
  by code_simp

subsection \<open>Baseline ETA\<close>

text \<open>
  Claim C8, as the code has it. In the patient workflow the baseline ETA is the
  hospital's distance divided by the speed of the hour (15 km/h from 7 to 10 and from 17
  to 20 o'clock, 25 km/h from 11 to 16, 35 km/h otherwise), in minutes, truncated to
  whole minutes: for a distance that is not negative it is rounded down, and it is 0
  whenever the exact time is under a minute. In the real-time workflow the speed is 35
  km/h for a score of 7 or more and 25 km/h otherwise, whatever the hour, and the
  truncated minutes are raised to at least 5.
\<close>

theorem baseline_eta:
  "estimated_time_normal (calculate_patient_route hour req h pa)
     = py_int ((distance_km h
                / (if (7 \<le> hour \<and> hour \<le> 10) \<or> (17 \<le> hour \<and> hour \<le> 20) then 15
                   else if 11 \<le> hour \<and> hour \<le> 16 then 25 else 35)) * 60)
   \<and> (0 \<le> distance_km h \<longrightarrow>
        estimated_time_normal (calculate_patient_route hour req h pa)
          = \<lfloor>(distance_km h / base_speed_at hour) * 60\<rfloor>
        \<and> 0 \<le> estimated_time_normal (calculate_patient_route hour req h pa)
        \<and> (estimated_time_normal (calculate_patient_route hour req h pa) = 0
             \<longleftrightarrow> (distance_km h / base_speed_at hour) * 60 < 1))
   \<and> (route_for_assessment g ph c locs a (hs, routes) = (hs1, routes1) \<and> routes1 \<noteq> routes \<longrightarrow>
        (\<exists>j<length hs. hosp_id (ro_target_hospital (last routes1)) = hosp_id (hs ! j)
           \<and> ro_estimated_time_normal (last routes1) =
               max (py_int ((g (accident_location ph locs a)
                               (hosp_gps_lat (hs ! j), hosp_gps_lon (hs ! j))
                             / (if pcs_patient_critical_score a \<ge> 7 then 35 else 25)) * 60)) 5))"
proof (intro conjI impI)
  show "estimated_time_normal (calculate_patient_route hour req h pa)
     = py_int ((distance_km h
                / (if (7 \<le> hour \<and> hour \<le> 10) \<or> (17 \<le> hour \<and> hour \<le> 20) then 15
                   else if 11 \<le> hour \<and> hour \<le> 16 then 25 else 35)) * 60)"
    using patient_route_fields[of hour req h pa] unfolding base_speed_at_def by blast
next
  assume d: "0 \<le> distance_km h"
  have nn: "0 \<le> (distance_km h / base_speed_at hour) * 60"
    using d base_speed_pos[of hour] by simp
  show e: "estimated_time_normal (calculate_patient_route hour req h pa)
          = \<lfloor>(distance_km h / base_speed_at hour) * 60\<rfloor>"
    using patient_route_fields[of hour req h pa] py_int_nonneg[OF nn] by simp
  show "0 \<le> estimated_time_normal (calculate_patient_route hour req h pa)"
    using d by (rule patient_normal_nonneg)
  show "estimated_time_normal (calculate_patient_route hour req h pa) = 0
             \<longleftrightarrow> (distance_km h / base_speed_at hour) * 60 < 1"
    unfolding e using nn by (simp only: floor_eq_iff) auto
next
  assume "route_for_assessment g ph c locs a (hs, routes) = (hs1, routes1) \<and> routes1 \<noteq> routes"
  then have "route_for_assessment g ph c locs a (hs, routes) = (hs1, routes1)" "routes1 \<noteq> routes"
    by simp_all
  from route_step_times[OF this]
  show "\<exists>j<length hs. hosp_id (ro_target_hospital (last routes1)) = hosp_id (hs ! j)
           \<and> ro_estimated_time_normal (last routes1) =
               max (py_int ((g (accident_location ph locs a)
                               (hosp_gps_lat (hs ! j), hosp_gps_lon (hs ! j))
                             / (if pcs_patient_critical_score a \<ge> 7 then 35 else 25)) * 60)) 5"
    by blast
qed

theorem baseline_eta_witness:
  "0 \<le> distance_km (sample_hospital 12.5)
   \<and> estimated_time_normal
       (calculate_patient_route 8 critical_request (sample_hospital 12.5)
          (assess_patient_with_ai critical_request)) = 50
   \<and> 0 \<le> estimated_time_normal
       (calculate_patient_route 8 critical_request (sample_hospital 12.5)
          (assess_patient_with_ai critical_request))
   \<and> snd sample_step \<noteq> []
   \<and> ro_estimated_time_normal (last (snd sample_step)) = 9"
proof -
  have d: "0 \<le> distance_km (sample_hospital 12.5)" by (simp add: sample_hospital_def)
  have ev: "snd sample_step \<noteq> [] \<and> ro_estimated_time_normal (last (snd sample_step)) = 9
     \<and> estimated_time_normal
       (calculate_patient_route 8 critical_request (sample_hospital 12.5)
          (assess_patient_with_ai critical_request)) = 50"
    by code_simp
  from baseline_eta[THEN conjunct2, THEN conjunct1, rule_format, OF d,
      of 8 critical_request "assess_patient_with_ai critical_request"]
  have "0 \<le> estimated_time_normal
       (calculate_patient_route 8 critical_request (sample_hospital 12.5)
          (assess_patient_with_ai critical_request))" by blast
  with d ev show ?thesis by blast
qed


text \<open>
  The claim as worded, rounding up with a floor of 1 minute, fails: 1 km at 35 km/h is
  1 minute in the code and 2 by the claim; 0.1 km at 15 km/h is 0 minutes in the code
  and 1 by the claim.
\<close>

theorem baseline_eta_counterexample:
  "estimated_time_normal
     (calculate_patient_route 0 critical_request (sample_hospital 1)
        (assess_patient_with_ai critical_request)) = 1
   \<and> traffic_conditions
     (calculate_patient_route 0 critical_request (sample_hospital 1)
        (assess_patient_with_ai critical_request)) = ''LIGHT''
   \<and> spec_baseline_eta (distance_km (sample_hospital 1)) 35 = 2
   \<and> estimated_time_normal
     (calculate_patient_route 8 critical_request (sample_hospital 0.1)
        (assess_patient_with_ai critical_request)) = 0
   \<and> spec_baseline_eta (distance_km (sample_hospital 0.1)) 15 = 1"
  by code_simp

subsection \<open>Corridor activation\<close>

text \<open>
  Claim C4, as the code has it. In the patient workflow an activation (status
  ACTIVATED) is created exactly when the assessment's corridor-required flag is set,
  whatever the time saved. In the real-time workflow an activation (status ACTIVATED) is
  created for exactly the routes whose time saved is at least 5 minutes, in order; no
  assessment flag is consulted.
\<close>

theorem corridor_activation_rule:
  "(activate_patient_green_corridor now route pa \<noteq> None) = green_corridor_required pa
   \<and> (\<forall>gc. activate_patient_green_corridor now route pa = Some gc \<longrightarrow>
         gc_status gc = ''ACTIVATED'' \<and> gc_request_id gc = pr_request_id route
         \<and> estimated_time_saved gc = time_saved_minutes route)
   \<and> activate_green_corridor_sumo now None = []
   \<and> map gca_accident_id (activate_green_corridor_sumo now (Some routes))
       = map ro_accident_id (filter (\<lambda>r. 5 \<le> ro_time_saved_minutes r) routes)
   \<and> list_all (\<lambda>act. gca_status act = ACTIVATED \<and> 5 \<le> gca_estimated_time_saved act)
        (activate_green_corridor_sumo now (Some routes))
   \<and> (r \<in> set routes \<longrightarrow>
        (corridor_activation now r \<in> set (activate_green_corridor_sumo now (Some routes)))
          = (5 \<le> ro_time_saved_minutes r))"
proof (intro conjI allI impI)
  show "(activate_patient_green_corridor now route pa \<noteq> None) = green_corridor_required pa"
    by (simp add: activate_patient_green_corridor_def)
next
  fix gc assume "activate_patient_green_corridor now route pa = Some gc"
  then have "gc_status gc = ''ACTIVATED'' \<and> gc_request_id gc = pr_request_id route
         \<and> estimated_time_saved gc = time_saved_minutes route"
    by (auto simp: activate_patient_green_corridor_def split: if_splits)
  then show "gc_status gc = ''ACTIVATED''" "gc_request_id gc = pr_request_id route"
    "estimated_time_saved gc = time_saved_minutes route" by simp_all
next
  show "activate_green_corridor_sumo now None = []"
    by (simp add: activate_green_corridor_sumo_def)
next
  show "map gca_accident_id (activate_green_corridor_sumo now (Some routes))
       = map ro_accident_id (filter (\<lambda>r. 5 \<le> ro_time_saved_minutes r) routes)"
    by (simp add: activate_green_corridor_sumo_def corridor_activation_def Let_def comp_def)
next
  show "list_all (\<lambda>act. gca_status act = ACTIVATED \<and> 5 \<le> gca_estimated_time_saved act)
        (activate_green_corridor_sumo now (Some routes))"
    by (simp add: activate_green_corridor_sumo_def corridor_activation_def Let_def
        list_all_iff)
next
  assume r: "r \<in> set routes"
  have sv: "\<And>x. gca_estimated_time_saved (corridor_activation now x) = ro_time_saved_minutes x"
    by (simp add: corridor_activation_def Let_def)
  show "(corridor_activation now r \<in> set (activate_green_corridor_sumo now (Some routes)))
          = (5 \<le> ro_time_saved_minutes r)"
  proof
    assume "corridor_activation now r \<in> set (activate_green_corridor_sumo now (Some routes))"
    then obtain r' where "5 \<le> ro_time_saved_minutes r'"
      and "corridor_activation now r = corridor_activation now r'"
      by (auto simp: activate_green_corridor_sumo_def)
    then show "5 \<le> ro_time_saved_minutes r" using sv[of r] sv[of r'] by simp
  next
    assume "5 \<le> ro_time_saved_minutes r"
    with r show "corridor_activation now r \<in> set (activate_green_corridor_sumo now (Some routes))"
      by (auto simp: activate_green_corridor_sumo_def)
  qed
qed

theorem corridor_activation_rule_witness:
  "map ro_time_saved_minutes far_routes = [21, 1]
   \<and> hd far_routes \<in> set far_routes
   \<and> corridor_activation ''2025-09-30 15:21:00'' (hd far_routes)
        \<in> set (activate_green_corridor_sumo ''2025-09-30 15:21:00'' (Some far_routes))
   \<and> map gca_accident_id (activate_green_corridor_sumo ''2025-09-30 15:21:00'' (Some far_routes))
        = [''ACC_07'']
   \<and> green_corridor_required (assess_patient_with_ai critical_request)
   \<and> activate_patient_green_corridor ''2025-09-30 15:21:00''
        (calculate_patient_route 8 critical_request (sample_hospital 12.5)
           (assess_patient_with_ai critical_request))
        (assess_patient_with_ai critical_request) \<noteq> None"
proof -
  have ev: "map ro_time_saved_minutes far_routes = [21, 1]
      \<and> map ro_accident_id (filter (\<lambda>r. 5 \<le> ro_time_saved_minutes r) far_routes) = [''ACC_07'']
      \<and> 5 \<le> ro_time_saved_minutes (hd far_routes)
      \<and> green_corridor_required (assess_patient_with_ai critical_request)"
    by code_simp
  then have ne: "far_routes \<noteq> []" by auto
  then have m: "hd far_routes \<in> set far_routes" by simp
  note th = corridor_activation_rule[of "''2025-09-30 15:21:00''"
      "calculate_patient_route 8 critical_request (sample_hospital 12.5)
           (assess_patient_with_ai critical_request)"
      "assess_patient_with_ai critical_request" far_routes "hd far_routes"]
  from th m ev have "corridor_activation ''2025-09-30 15:21:00'' (hd far_routes)
        \<in> set (activate_green_corridor_sumo ''2025-09-30 15:21:00'' (Some far_routes))"
    by blast
  moreover from th ev
  have "map gca_accident_id (activate_green_corridor_sumo ''2025-09-30 15:21:00'' (Some far_routes))
        = [''ACC_07'']" by simp
  moreover from th ev
  have "activate_patient_green_corridor ''2025-09-30 15:21:00''
        (calculate_patient_route 8 critical_request (sample_hospital 12.5)
           (assess_patient_with_ai critical_request))
        (assess_patient_with_ai critical_request) \<noteq> None" by blast
  ultimately show ?thesis using ev m by blast
qed


text \<open>
  The claim as worded, which also asks for a time saved above 0, fails in the patient
  workflow: for a critical patient 0.1 km from the hospital the baseline and the
  priority ETA are both 0, the time saved is 0, and the corridor is activated.
\<close>

theorem corridor_activation_rule_counterexample:
  "green_corridor_required (assess_patient_with_ai critical_request)
   \<and> time_saved_minutes
       (calculate_patient_route 8 critical_request (sample_hospital 0.1)
          (assess_patient_with_ai critical_request)) = 0
   \<and> activate_patient_green_corridor ''2025-09-30 15:21:00''
       (calculate_patient_route 8 critical_request (sample_hospital 0.1)
          (assess_patient_with_ai critical_request))
       (assess_patient_with_ai critical_request) \<noteq> None
   \<and> \<not> spec_corridor_rule (green_corridor_required (assess_patient_with_ai critical_request))
        (time_saved_minutes
           (calculate_patient_route 8 critical_request (sample_hospital 0.1)
              (assess_patient_with_ai critical_request))) 5"
  by code_simp

subsection \<open>Severity score and tier\<close>

lemma pcs_score_bounds: "1 \<le> pcs_score r \<and> pcs_score r \<le> 10"
  by (cases "emergency_type r") (auto simp: pcs_score_def age_factors_def)

lemma assess_score: "patient_critical_score (assess_patient_with_ai r) = pcs_score r"
  by (simp add: assess_patient_with_ai_def Let_def)

lemma assess_severity:
  "severity_level (assess_patient_with_ai r) =
     (if pcs_score r \<ge> 8 then CRITICAL else if pcs_score r \<ge> 6 then SERIOUS
      else if pcs_score r \<ge> 4 then MODERATE else MINOR)"
  by (simp add: assess_patient_with_ai_def Let_def)

lemma assess_corridor: "green_corridor_required (assess_patient_with_ai r) = (pcs_score r \<ge> 6)"
  by (auto simp add: assess_patient_with_ai_def Let_def)

text \<open>
  Claim C2, as the code has it. The score is the sum, capped at 10, of the age weight
  (3 under age 1, 2 from age 1 to 4, 2 above 75, 1 from 66 to 75, otherwise 0: one band
  at most applies), 4 for unconsciousness, 5 for non-breathing, 2 for bleeding and the
  category weight; it lies between 0 and 10. The tier is critical exactly for a score of
  8 or more, serious for 6 or 7, moderate for 4 or 5, minor below 4, so a higher score
  never has a lower tier.
\<close>

theorem severity_score_and_tier:
  "patient_critical_score (assess_patient_with_ai r)
     = min 10
         ((if patient_age r < 1 then 3 else if patient_age r < 5 then 2
           else if patient_age r > 75 then 2 else if patient_age r > 65 then 1 else 0)
          + (if is_patient_conscious r then 0 else 4)
          + (if is_patient_breathing r then 0 else 5)
          + (if any_bleeding r then 2 else 0)
          + emergency_scores (emergency_type r))
   \<and> 0 \<le> patient_critical_score (assess_patient_with_ai r)
   \<and> patient_critical_score (assess_patient_with_ai r) \<le> 10
   \<and> (severity_level (assess_patient_with_ai r) = CRITICAL)
        = (8 \<le> patient_critical_score (assess_patient_with_ai r))
   \<and> (severity_level (assess_patient_with_ai r) = SERIOUS)
        = (6 \<le> patient_critical_score (assess_patient_with_ai r)
           \<and> patient_critical_score (assess_patient_with_ai r) < 8)
   \<and> (severity_level (assess_patient_with_ai r) = MODERATE)
        = (4 \<le> patient_critical_score (assess_patient_with_ai r)
           \<and> patient_critical_score (assess_patient_with_ai r) < 6)
   \<and> (severity_level (assess_patient_with_ai r) = MINOR)
        = (patient_critical_score (assess_patient_with_ai r) < 4)
   \<and> (patient_critical_score (assess_patient_with_ai r)
         \<le> patient_critical_score (assess_patient_with_ai r') \<longrightarrow>
       tier_rank (severity_level (assess_patient_with_ai r))
         \<le> tier_rank (severity_level (assess_patient_with_ai r')))"
proof -
  have f: "patient_critical_score (assess_patient_with_ai r)
     = min 10
         ((if patient_age r < 1 then 3 else if patient_age r < 5 then 2
           else if patient_age r > 75 then 2 else if patient_age r > 65 then 1 else 0)
          + (if is_patient_conscious r then 0 else 4)
          + (if is_patient_breathing r then 0 else 5)
          + (if any_bleeding r then 2 else 0)
          + emergency_scores (emergency_type r))"
    by (simp add: assess_score pcs_score_def age_factors_def min.commute)
  have t: "(severity_level (assess_patient_with_ai r) = CRITICAL) = (8 \<le> pcs_score r)"
    "(severity_level (assess_patient_with_ai r) = SERIOUS) = (6 \<le> pcs_score r \<and> pcs_score r < 8)"
    "(severity_level (assess_patient_with_ai r) = MODERATE) = (4 \<le> pcs_score r \<and> pcs_score r < 6)"
    "(severity_level (assess_patient_with_ai r) = MINOR) = (pcs_score r < 4)"
    by (auto simp: assess_severity)
  have m: "pcs_score r \<le> pcs_score r' \<longrightarrow>
       tier_rank (severity_level (assess_patient_with_ai r))
         \<le> tier_rank (severity_level (assess_patient_with_ai r'))"
    by (simp add: assess_severity)
  from f t m pcs_score_bounds[of r] show ?thesis
    unfolding assess_score by linarith
qed

theorem severity_score_and_tier_witness:
  "patient_critical_score (assess_patient_with_ai (sample_request 80 BURNS True True True)) = 6
   \<and> patient_critical_score (assess_patient_with_ai critical_request) = 10
   \<and> tier_rank (severity_level (assess_patient_with_ai (sample_request 80 BURNS True True True)))
        \<le> tier_rank (severity_level (assess_patient_with_ai critical_request))
   \<and> severity_level (assess_patient_with_ai (sample_request 80 BURNS True True True)) = SERIOUS"
proof -
  have ev: "patient_critical_score (assess_patient_with_ai (sample_request 80 BURNS True True True)) = 6
     \<and> patient_critical_score (assess_patient_with_ai critical_request) = 10"
    by code_simp
  note th = severity_score_and_tier[of "sample_request 80 BURNS True True True" critical_request]
  from th have m: "patient_critical_score (assess_patient_with_ai (sample_request 80 BURNS True True True))
         \<le> patient_critical_score (assess_patient_with_ai critical_request) \<longrightarrow>
       tier_rank (severity_level (assess_patient_with_ai (sample_request 80 BURNS True True True)))
         \<le> tier_rank (severity_level (assess_patient_with_ai critical_request))"
    by (elim conjE)
  from th have s: "(severity_level (assess_patient_with_ai (sample_request 80 BURNS True True True)) = SERIOUS)
        = (6 \<le> patient_critical_score (assess_patient_with_ai (sample_request 80 BURNS True True True))
           \<and> patient_critical_score (assess_patient_with_ai (sample_request 80 BURNS True True True)) < 8)"
    by (elim conjE)
  have "tier_rank (severity_level (assess_patient_with_ai (sample_request 80 BURNS True True True)))
         \<le> tier_rank (severity_level (assess_patient_with_ai critical_request))"
    using m ev by simp
  moreover have "severity_level (assess_patient_with_ai (sample_request 80 BURNS True True True)) = SERIOUS"
    using s ev by simp
  ultimately show ?thesis using ev by blast
qed

text \<open>
  The claim as worded gives age < 5 the weight 2 and has no infant band: for a
  conscious, breathing infant of age 0 with no bleeding and category other, it gives 3
  where the scorer gives 4 (tier moderate).
\<close>

theorem severity_score_and_tier_counterexample:
  "patient_critical_score (assess_patient_with_ai (sample_request 0 OTHER True True False)) = 4
   \<and> spec_severity_score (sample_request 0 OTHER True True False) = 3
   \<and> severity_level (assess_patient_with_ai (sample_request 0 OTHER True True False)) = MODERATE"
  by code_simp

subsection \<open>Corridor-required flag\<close>

text \<open>
  Claim C7. The assessment's corridor-required flag is set exactly when the tier is
  serious or critical, which is exactly when the score is at least 6; an unconscious,
  non-breathing cardiac patient of age 70 has a score of at least 8, tier critical and the
  flag set.
\<close>

theorem corridor_required_iff_serious_or_critical:
  "green_corridor_required (assess_patient_with_ai r)
     = (severity_level (assess_patient_with_ai r) = SERIOUS
        \<or> severity_level (assess_patient_with_ai r) = CRITICAL)
   \<and> green_corridor_required (assess_patient_with_ai r)
     = (6 \<le> patient_critical_score (assess_patient_with_ai r))
   \<and> (\<not> is_patient_conscious r \<and> \<not> is_patient_breathing r \<and> emergency_type r = CARDIAC
        \<and> patient_age r = 70 \<longrightarrow>
       8 \<le> patient_critical_score (assess_patient_with_ai r)
       \<and> severity_level (assess_patient_with_ai r) = CRITICAL
       \<and> green_corridor_required (assess_patient_with_ai r))"
  by (auto simp: assess_corridor assess_severity assess_score pcs_score_def age_factors_def)

theorem corridor_required_iff_serious_or_critical_witness:
  "\<not> is_patient_conscious critical_request \<and> \<not> is_patient_breathing critical_request
   \<and> emergency_type critical_request = CARDIAC \<and> patient_age critical_request = 70
   \<and> patient_critical_score (assess_patient_with_ai critical_request) = 10
   \<and> severity_level (assess_patient_with_ai critical_request) = CRITICAL
   \<and> green_corridor_required (assess_patient_with_ai critical_request)"
proof -
  have ev: "\<not> is_patient_conscious critical_request \<and> \<not> is_patient_breathing critical_request
     \<and> emergency_type critical_request = CARDIAC \<and> patient_age critical_request = 70
     \<and> patient_critical_score (assess_patient_with_ai critical_request) = 10"
    by code_simp
  note th = corridor_required_iff_serious_or_critical[of critical_request]
  from th ev show ?thesis by blast
qed


subsection \<open>The inline criticality of intake and the scorer\<close>

lemma inline_score_below:
  "min 10 (criticality_score (is_patient_conscious r) (is_patient_breathing r) (any_bleeding r)
             (emergency_type r) (patient_age r) + 1) \<le> pcs_score r"
  by (cases "emergency_type r") (auto simp: criticality_score_def pcs_score_def age_factors_def)

lemma dashboard_request_fields:
  "is_patient_conscious (dashboard_collect_family_emergency env name phone patient age area
       address etype c b bl symptoms) = c
   \<and> is_patient_breathing (dashboard_collect_family_emergency env name phone patient age area
       address etype c b bl symptoms) = b
   \<and> any_bleeding (dashboard_collect_family_emergency env name phone patient age area
       address etype c b bl symptoms) = bl
   \<and> emergency_type (dashboard_collect_family_emergency env name phone patient age area
       address etype c b bl symptoms) = etype
   \<and> patient_age (dashboard_collect_family_emergency env name phone patient age area
       address etype c b bl symptoms) = age
   \<and> criticality_level (dashboard_collect_family_emergency env name phone patient age area
       address etype c b bl symptoms)
       = level_of_criticality_score (criticality_score c b bl etype age)
   \<and> caller_name (dashboard_collect_family_emergency env name phone patient age area
       address etype c b bl symptoms) = name
   \<and> gps_lat (dashboard_collect_family_emergency env name phone patient age area
       address etype c b bl symptoms) = fst (base_coords (chosen_base env)) + uniform_lat env
   \<and> gps_lon (dashboard_collect_family_emergency env name phone patient age area
       address etype c b bl symptoms) = snd (base_coords (chosen_base env)) + uniform_lon env"
  by (simp add: dashboard_collect_family_emergency_def)

text \<open>
  Claim C10, as the code has it. The level intake stores is computed from its own weights
  and thresholds (8, 5, 2) and is not the scorer's tier. For the same answers the scorer's
  score is at least the inline score plus 1, capped at 10; so an inline level critical
  has the scorer's tier critical, and an inline level serious has the scorer's tier
  serious or critical.
\<close>

theorem inline_level_versus_scorer:
  "criticality_level (dashboard_collect_family_emergency env name phone patient age area
       address etype c b bl symptoms)
     = level_of_criticality_score (criticality_score c b bl etype age)
   \<and> min 10 (criticality_score c b bl etype age + 1)
       \<le> patient_critical_score (assess_patient_with_ai
            (dashboard_collect_family_emergency env name phone patient age area
               address etype c b bl symptoms))
   \<and> (criticality_level (dashboard_collect_family_emergency env name phone patient age area
          address etype c b bl symptoms) = CRITICAL \<longrightarrow>
        severity_level (assess_patient_with_ai
            (dashboard_collect_family_emergency env name phone patient age area
               address etype c b bl symptoms)) = CRITICAL)
   \<and> (criticality_level (dashboard_collect_family_emergency env name phone patient age area
          address etype c b bl symptoms) = SERIOUS \<longrightarrow>
        severity_level (assess_patient_with_ai
            (dashboard_collect_family_emergency env name phone patient age area
               address etype c b bl symptoms)) = SERIOUS
        \<or> severity_level (assess_patient_with_ai
            (dashboard_collect_family_emergency env name phone patient age area
               address etype c b bl symptoms)) = CRITICAL)"
proof -
  let ?r = "dashboard_collect_family_emergency env name phone patient age area
               address etype c b bl symptoms"
  let ?s = "criticality_score c b bl etype age"
  note f = dashboard_request_fields[of env name phone patient age area address etype c b bl symptoms]
  have lv: "criticality_level ?r = level_of_criticality_score ?s" using f by blast
  have "min 10 (criticality_score (is_patient_conscious ?r) (is_patient_breathing ?r)
          (any_bleeding ?r) (emergency_type ?r) (patient_age ?r) + 1) \<le> pcs_score ?r"
    by (rule inline_score_below)
  then have le: "min 10 (?s + 1) \<le> pcs_score ?r" using f by simp
  have c: "criticality_level ?r = CRITICAL \<longrightarrow> severity_level (assess_patient_with_ai ?r) = CRITICAL"
    unfolding lv assess_severity using le
    by (auto simp: level_of_criticality_score_def split: if_splits)
  have s: "criticality_level ?r = SERIOUS \<longrightarrow> severity_level (assess_patient_with_ai ?r) = SERIOUS
        \<or> severity_level (assess_patient_with_ai ?r) = CRITICAL"
    unfolding lv assess_severity using le
    by (auto simp: level_of_criticality_score_def split: if_splits)
  from lv le c s show ?thesis unfolding assess_score by blast
qed

theorem inline_level_versus_scorer_witness:
  "criticality_level critical_request = CRITICAL
   \<and> severity_level (assess_patient_with_ai critical_request) = CRITICAL
   \<and> criticality_level (sample_request 30 STROKE True True True) = SERIOUS
   \<and> (severity_level (assess_patient_with_ai (sample_request 30 STROKE True True True)) = SERIOUS
       \<or> severity_level (assess_patient_with_ai (sample_request 30 STROKE True True True)) = CRITICAL)"
proof -
  have ev: "criticality_level critical_request = CRITICAL
     \<and> criticality_level (sample_request 30 STROKE True True True) = SERIOUS"
    by code_simp
  have a: "severity_level (assess_patient_with_ai critical_request) = CRITICAL"
    using ev inline_level_versus_scorer[of sample_env "''Rajesh Kumar''" "''+91-9876543210''"
       "''Sunita Kumar''" 70 "''Connaught Place, New Delhi''"
       "''B-12, Inner Circle, Connaught Place, New Delhi - 110001''" CARDIAC
       False False False "''Chest pain, difficulty breathing''"]
    unfolding critical_request_def sample_request_def by blast
  have b: "severity_level (assess_patient_with_ai (sample_request 30 STROKE True True True)) = SERIOUS
       \<or> severity_level (assess_patient_with_ai (sample_request 30 STROKE True True True)) = CRITICAL"
    using ev inline_level_versus_scorer[of sample_env "''Rajesh Kumar''" "''+91-9876543210''"
       "''Sunita Kumar''" 30 "''Connaught Place, New Delhi''"
       "''B-12, Inner Circle, Connaught Place, New Delhi - 110001''" STROKE
       True True True "''Chest pain, difficulty breathing''"]
    unfolding critical_request_def sample_request_def by blast
  from ev a b show ?thesis by blast
qed


text \<open>
  The two are not equal as functions: a conscious, breathing, bleeding patient of 30 with
  category other is moderate inline and minor for the scorer; a conscious, breathing
  patient of 30 with category unconscious is minor inline and moderate for the scorer.
\<close>

theorem inline_level_versus_scorer_counterexample:
  "criticality_level (sample_request 30 OTHER True True True) = MODERATE
   \<and> severity_level (assess_patient_with_ai (sample_request 30 OTHER True True True)) = MINOR
   \<and> criticality_level (sample_request 30 UNCONSCIOUS True True False) = MINOR
   \<and> severity_level (assess_patient_with_ai (sample_request 30 UNCONSCIOUS True True False))
       = MODERATE"
  by code_simp

subsection \<open>Candidates of the patient workflow's matcher\<close>

lemma hospital_data_length: "length hospital_data = 4"
  by (simp add: hospital_data_def)

lemma in_set_map_filter:
  "y \<in> set (List.map_filter f xs) \<longleftrightarrow> (\<exists>x\<in>set xs. f x = Some y)"
  by (induction xs) (auto split: option.splits)

lemma available_hospitals_iff:
  "h \<in> set (available_hospitals g feed req a)
     \<longleftrightarrow> (\<exists>i<4. hospital_candidate g req a (hospital_data ! i) (feed i) = Some h)"
proof
  assume "h \<in> set (available_hospitals g feed req a)"
  then obtain p where p: "p \<in> set (enumerate 0 hospital_data)"
    and c: "(case p of (i, e) \<Rightarrow> hospital_candidate g req a e (feed i)) = Some h"
    unfolding available_hospitals_def in_set_map_filter by blast
  from p have "fst p < 4" "hospital_data ! fst p = snd p"
    by (simp_all add: in_set_enumerate_eq hospital_data_length)
  with c show "\<exists>i<4. hospital_candidate g req a (hospital_data ! i) (feed i) = Some h"
    by (intro exI[of _ "fst p"]) (simp add: case_prod_beta)
next
  assume "\<exists>i<4. hospital_candidate g req a (hospital_data ! i) (feed i) = Some h"
  then obtain i where i: "i < 4"
    and c: "hospital_candidate g req a (hospital_data ! i) (feed i) = Some h" by blast
  have "(i, hospital_data ! i) \<in> set (enumerate 0 hospital_data)"
    using i by (simp add: in_set_enumerate_eq hospital_data_length)
  with c show "h \<in> set (available_hospitals g feed req a)"
    unfolding available_hospitals_def in_set_map_filter by force
qed

lemma hospital_candidate_Some:
  assumes "hospital_candidate g req a e f = Some h"
  shows "h_id h = e_id e \<and> specialties h = e_specialties e
       \<and> (available_beds h, icu_beds h, current_load h)
           = critical_override (severity_level a) (simulated_beds e f)
       \<and> (0 < available_beds h \<or> severity_level a = CRITICAL)
       \<and> distance_km h = py_round2 (g (gps_lat req, gps_lon req) (e_gps_lat e, e_gps_lon e))"
  using assms
  by (auto simp: hospital_candidate_def Let_def split: prod.splits if_splits)

lemma hospital_candidate_iff:
  "(\<exists>h. hospital_candidate g req a e f = Some h)
     \<longleftrightarrow> (0 < fst (critical_override (severity_level a) (simulated_beds e f))
          \<or> severity_level a = CRITICAL)"
  by (auto simp: hospital_candidate_def Let_def split: prod.splits if_splits)

lemma catalogue_rank:
  assumes "i < 4" "specialties h = e_specialties (hospital_data ! i)"
  shows "hospital_priority req h
           = (fst (stored_priority req h) + 1, distance_km h, - available_beds h)
       \<and> stored_priority req h = (fst (stored_priority req h), distance_km h, - available_beds h)"
proof -
  from assms(1) have "i = 0 \<or> i = 1 \<or> i = 2 \<or> i = 3" by auto
  then show ?thesis using assms(2)
    by (cases "emergency_type req")
       (auto simp: hospital_data_def hospital_priority_def stored_priority_def spec_rank_def
          specialty_matches_def Let_def)
qed


lemma lex_shift:
  "((a + 1, x) \<le> (b + 1, y)) = ((a, x) \<le> ((b::int), y))"
  by (auto simp: less_eq_prod_def)

lemma check_set:
  "set (check_hospital_bed_availability g feed req a) = set (available_hospitals g feed req a)
   \<and> length (check_hospital_bed_availability g feed req a)
       = length (available_hospitals g feed req a)"
  by (simp add: check_hospital_bed_availability_def)

lemma available_rank:
  assumes "h \<in> set (available_hospitals g feed req a)"
  shows "hospital_priority req h = (fst (stored_priority req h) + 1, snd (stored_priority req h))"
proof -
  from assms obtain i where i: "i < 4"
    and c: "hospital_candidate g req a (hospital_data ! i) (feed i) = Some h"
    unfolding available_hospitals_iff by blast
  from hospital_candidate_Some[OF c] have "specialties h = e_specialties (hospital_data ! i)"
    by simp
  from catalogue_rank[OF i this, of req] show ?thesis by (metis snd_conv)
qed

lemma hospital_candidate_coords:
  assumes "hospital_candidate g req a e f = Some h"
  shows "h_gps_lat h = e_gps_lat e \<and> h_gps_lon h = e_gps_lon e"
  using assms
  by (auto simp: hospital_candidate_def Let_def split: prod.splits if_splits)

lemma available_distance:
  assumes "h \<in> set (available_hospitals g feed req a)"
  shows "distance_km h = py_round2 (g (gps_lat req, gps_lon req) (h_gps_lat h, h_gps_lon h))"
proof -
  from assms obtain i where "i < 4"
    and c: "hospital_candidate g req a (hospital_data ! i) (feed i) = Some h"
    unfolding available_hospitals_iff by blast
  from hospital_candidate_Some[OF c] hospital_candidate_coords[OF c] show ?thesis by simp
qed

subsection \<open>Ranking of candidate facilities\<close>

text \<open>
  Claim C5, as the code has it. The candidates come back in ascending order of the key
  (specialty rank: 0 for a facility with a specialty matching the category, 1 for a
  general trauma or emergency facility; then the distance the candidate stores; then the
  negated bed count), and the facility dispatched to, the first of them, is minimal
  under this key among all candidates. The distance every candidate stores is the
  geodesic distance from the patient to the facility rounded to two decimals, not that
  distance itself. The matcher's own key, given last, writes the two ranks as 1 and 2
  and puts a facility with neither a matching specialty nor trauma or emergency at 0,
  ahead of both; every facility of its catalogue lists trauma and emergency, so on the
  candidates its rank is the rank above plus one and both keys order them alike.
\<close>

theorem ranking_key_order:
  "sorted (map (stored_priority req) (check_hospital_bed_availability g feed req a))
   \<and> set (check_hospital_bed_availability g feed req a) = set (available_hospitals g feed req a)
   \<and> length (check_hospital_bed_availability g feed req a)
       = length (available_hospitals g feed req a)
   \<and> list_all (\<lambda>h. hospital_priority req h
                      = (fst (stored_priority req h) + 1, snd (stored_priority req h)))
        (check_hospital_bed_availability g feed req a)
   \<and> (selected_hospital (check_hospital_bed_availability g feed req a) = None)
       = (available_hospitals g feed req a = [])
   \<and> (\<forall>h0. selected_hospital (check_hospital_bed_availability g feed req a) = Some h0 \<longrightarrow>
         h0 \<in> set (available_hospitals g feed req a)
         \<and> (\<forall>h \<in> set (available_hospitals g feed req a).
               stored_priority req h0 \<le> stored_priority req h))
   \<and> list_all (\<lambda>h. distance_km h
                      = py_round2 (g (gps_lat req, gps_lon req) (h_gps_lat h, h_gps_lon h)))
        (check_hospital_bed_availability g feed req a)
   \<and> hospital_priority req h'
       = ((if specialty_matches (emergency_type req) (specialties h') then 1
           else if ''trauma'' \<in> set (specialties h') \<or> ''emergency'' \<in> set (specialties h')
           then 2 else 0),
          distance_km h', - available_beds h')"
proof -
  let ?xs = "available_hospitals g feed req a"
  let ?ys = "check_hospital_bed_availability g feed req a"
  have set: "set ?ys = set ?xs" and len: "length ?ys = length ?xs"
    using check_set[of g feed req a] by simp_all
  have rank: "\<And>h. h \<in> set ?ys \<Longrightarrow>
      hospital_priority req h = (fst (stored_priority req h) + 1, snd (stored_priority req h))"
    using available_rank set by blast
  have "sorted (map (hospital_priority req) ?ys)"
    by (simp add: check_hospital_bed_availability_def)
  then have "sorted_wrt (\<lambda>x y. hospital_priority req x \<le> hospital_priority req y) ?ys"
    by (simp add: sorted_map)
  then have "sorted_wrt (\<lambda>x y. stored_priority req x \<le> stored_priority req y) ?ys"
  proof (rule sorted_wrt_mono_rel[rotated])
    fix x y assume "x \<in> set ?ys" "y \<in> set ?ys"
      and le: "hospital_priority req x \<le> hospital_priority req y"
    then have "(fst (stored_priority req x) + 1, snd (stored_priority req x))
                 \<le> (fst (stored_priority req y) + 1, snd (stored_priority req y))"
      using rank by simp
    then have "(fst (stored_priority req x), snd (stored_priority req x))
                 \<le> (fst (stored_priority req y), snd (stored_priority req y))"
      by (simp only: lex_shift)
    then show "stored_priority req x \<le> stored_priority req y" by simp
  qed
  then have srt: "sorted (map (stored_priority req) ?ys)" by (simp add: sorted_map)
  have la: "list_all (\<lambda>h. hospital_priority req h
                      = (fst (stored_priority req h) + 1, snd (stored_priority req h))) ?ys"
    using rank by (simp add: list_all_iff)
  have none: "(selected_hospital ?ys = None) = (?xs = [])"
    using len by (cases ?ys) (auto simp: selected_hospital_def)
  have some: "\<forall>h0. selected_hospital ?ys = Some h0 \<longrightarrow>
         h0 \<in> set ?xs \<and> (\<forall>h \<in> set ?xs. stored_priority req h0 \<le> stored_priority req h)"
  proof (intro allI impI)
    fix h0 assume "selected_hospital ?ys = Some h0"
    then obtain rest where ys: "?ys = h0 # rest"
      by (cases ?ys) (auto simp: selected_hospital_def)
    from srt have "\<forall>h \<in> set rest. stored_priority req h0 \<le> stored_priority req h"
      unfolding ys by simp
    then have "\<forall>h \<in> set ?ys. stored_priority req h0 \<le> stored_priority req h"
      unfolding ys by simp
    moreover have "h0 \<in> set ?ys" unfolding ys by simp
    ultimately show "h0 \<in> set ?xs \<and> (\<forall>h \<in> set ?xs. stored_priority req h0 \<le> stored_priority req h)"
      using set by simp
  qed
  have dist: "list_all (\<lambda>h. distance_km h
                      = py_round2 (g (gps_lat req, gps_lon req) (h_gps_lat h, h_gps_lon h))) ?ys"
    using available_distance set by (fastforce simp: list_all_iff)
  have key: "hospital_priority req h'
       = ((if specialty_matches (emergency_type req) (specialties h') then 1
           else if ''trauma'' \<in> set (specialties h') \<or> ''emergency'' \<in> set (specialties h')
           then 2 else 0),
          distance_km h', - available_beds h')"
    by (auto simp: hospital_priority_def specialty_matches_def Let_def)
  from srt set len la none some dist key show ?thesis by blast
qed


theorem ranking_key_order_witness:
  "map h_id (check_hospital_bed_availability grid_km normal_feed critical_request
               (assess_patient_with_ai critical_request))
     = [''AIIMS_DELHI'', ''MAX_SAKET'', ''FORTIS_DELHI'', ''SAFDARJUNG'']
   \<and> map (fst \<circ> stored_priority critical_request)
         (check_hospital_bed_availability grid_km normal_feed critical_request
            (assess_patient_with_ai critical_request)) = [0, 0, 0, 1]
   \<and> sorted (map (stored_priority critical_request)
         (check_hospital_bed_availability grid_km normal_feed critical_request
            (assess_patient_with_ai critical_request)))
   \<and> length (available_hospitals grid_km normal_feed critical_request
               (assess_patient_with_ai critical_request)) = 4"
proof -
  have ev: "map h_id (check_hospital_bed_availability grid_km normal_feed critical_request
               (assess_patient_with_ai critical_request))
     = [''AIIMS_DELHI'', ''MAX_SAKET'', ''FORTIS_DELHI'', ''SAFDARJUNG'']
   \<and> map (fst \<circ> stored_priority critical_request)
         (check_hospital_bed_availability grid_km normal_feed critical_request
            (assess_patient_with_ai critical_request)) = [0, 0, 0, 1]"
    by code_simp
  then have "length (map h_id (check_hospital_bed_availability grid_km normal_feed
               critical_request (assess_patient_with_ai critical_request)))
       = length [''AIIMS_DELHI'', ''MAX_SAKET'', ''FORTIS_DELHI'', ''SAFDARJUNG'']"
    by (simp only:)
  then have "length (check_hospital_bed_availability grid_km normal_feed critical_request
               (assess_patient_with_ai critical_request)) = 4"
    by simp
  with ranking_key_order[of critical_request grid_km normal_feed
      "assess_patient_with_ai critical_request"] ev
  show ?thesis by simp
qed

text \<open>
  The claim as worded fails on the distance: with the sample distance for the geodesic
  one, a patient 0.3551 km from AIIMS and 0.3555 km from Safdarjung has both stored at
  0.36 km, and Safdarjung, with more free beds, comes first and is dispatched to although
  AIIMS is the nearer of the two and comes first under the key with the distance itself.
\<close>

theorem ranking_key_order_counterexample:
  "map (\<lambda>h. (h_id h, distance_km h, available_beds h))
     (take 2 (check_hospital_bed_availability grid_km tie_feed tie_request
                (assess_patient_with_ai tie_request)))
     = [(''SAFDARJUNG'', 0.36, 15), (''AIIMS_DELHI'', 0.36, 9)]
   \<and> map h_id (case selected_hospital
                   (check_hospital_bed_availability grid_km tie_feed tie_request
                      (assess_patient_with_ai tie_request)) of None \<Rightarrow> [] | Some h \<Rightarrow> [h])
     = [''SAFDARJUNG'']
   \<and> spec_priority grid_km tie_request
        (check_hospital_bed_availability grid_km tie_feed tie_request
           (assess_patient_with_ai tie_request) ! 1)
      < spec_priority grid_km tie_request
        (check_hospital_bed_availability grid_km tie_feed tie_request
           (assess_patient_with_ai tie_request) ! 0)
   \<and> \<bar>uniform_lat between_env\<bar> \<le> 0.05 \<and> \<bar>uniform_lon between_env\<bar> \<le> 0.05"
  by code_simp

subsection \<open>Facilities with no free bed\<close>

lemma catalogue_ids_distinct:
  "i < 4 \<Longrightarrow> j < 4 \<Longrightarrow> e_id (hospital_data ! i) = e_id (hospital_data ! j) \<Longrightarrow> i = j"
proof -
  assume "i < 4" "j < 4" and e: "e_id (hospital_data ! i) = e_id (hospital_data ! j)"
  then have "(i = 0 \<or> i = 1 \<or> i = 2 \<or> i = 3) \<and> (j = 0 \<or> j = 1 \<or> j = 2 \<or> j = 3)" by auto
  with e show ?thesis by (auto simp: hospital_data_def)
qed

lemma simulated_beds_nonneg: "0 \<le> fst (simulated_beds e f)"
  by (simp add: simulated_beds_def Let_def)

text \<open>
  Claim C6, as the code has it. For a facility of the catalogue whose simulated bed count
  is 0: when the tier is not critical it is not among the candidates; when the tier is
  critical it is a candidate with one bed allocated, at least one ICU bed and the load
  CRITICAL_OVERRIDE. A facility with a positive simulated count is a candidate with that
  count. This holds for every call: the matcher keeps nothing from one call to the next,
  so the override is applied again for every critical incident.
\<close>

theorem zero_bed_override:
  "i < 4 \<longrightarrow>
     0 \<le> fst (simulated_beds (hospital_data ! i) (feed i))
   \<and> (fst (simulated_beds (hospital_data ! i) (feed i)) = 0 \<and> severity_level a \<noteq> CRITICAL \<longrightarrow>
        \<not> (\<exists>h \<in> set (check_hospital_bed_availability g feed req a).
              h_id h = e_id (hospital_data ! i)))
   \<and> (fst (simulated_beds (hospital_data ! i) (feed i)) = 0 \<and> severity_level a = CRITICAL \<longrightarrow>
        (\<exists>h \<in> set (check_hospital_bed_availability g feed req a).
              h_id h = e_id (hospital_data ! i) \<and> available_beds h = 1
              \<and> icu_beds h = max 1 (fst (snd (simulated_beds (hospital_data ! i) (feed i))))
              \<and> current_load h = ''CRITICAL_OVERRIDE''))
   \<and> (0 < fst (simulated_beds (hospital_data ! i) (feed i)) \<longrightarrow>
        (\<exists>h \<in> set (check_hospital_bed_availability g feed req a).
              h_id h = e_id (hospital_data ! i)
              \<and> (available_beds h, icu_beds h, current_load h)
                  = simulated_beds (hospital_data ! i) (feed i)))"
proof (intro impI conjI)
  assume i: "i < 4"
  let ?e = "hospital_data ! i"
  let ?sim = "simulated_beds ?e (feed i)"
  show "0 \<le> fst ?sim" by (rule simulated_beds_nonneg)
  {
    assume z: "fst ?sim = 0 \<and> severity_level a \<noteq> CRITICAL"
    show "\<not> (\<exists>h \<in> set (check_hospital_bed_availability g feed req a). h_id h = e_id ?e)"
    proof
      assume "\<exists>h \<in> set (check_hospital_bed_availability g feed req a). h_id h = e_id ?e"
      then obtain h where h: "h \<in> set (available_hospitals g feed req a)" and id: "h_id h = e_id ?e"
        using check_set[of g feed req a] by auto
      from h obtain j where j: "j < 4"
        and c: "hospital_candidate g req a (hospital_data ! j) (feed j) = Some h"
        unfolding available_hospitals_iff by blast
      from hospital_candidate_Some[OF c] id have "e_id (hospital_data ! j) = e_id ?e" by simp
      then have "j = i" using catalogue_ids_distinct[OF j i] by simp
      with c have "\<exists>h. hospital_candidate g req a ?e (feed i) = Some h" by blast
      then show False unfolding hospital_candidate_iff using z
        by (cases ?sim) (auto simp: critical_override_def)
    qed
  }
  {
    assume z: "fst ?sim = 0 \<and> severity_level a = CRITICAL"
    obtain icu load where sim: "?sim = (0, icu, load)" using z by (cases ?sim) auto
    define h where "h = the (hospital_candidate g req a ?e (feed i))"
    have "\<exists>h. hospital_candidate g req a ?e (feed i) = Some h"
      unfolding hospital_candidate_iff using z by simp
    then have c: "hospital_candidate g req a ?e (feed i) = Some h" unfolding h_def by auto
    then have "h \<in> set (check_hospital_bed_availability g feed req a)"
      using i check_set[of g feed req a] available_hospitals_iff[of h g feed req a] by blast
    moreover from hospital_candidate_Some[OF c] z sim
    have "h_id h = e_id ?e \<and> available_beds h = 1 \<and> icu_beds h = max 1 (fst (snd ?sim))
        \<and> current_load h = ''CRITICAL_OVERRIDE''"
      by (simp add: critical_override_def)
    ultimately show "\<exists>h \<in> set (check_hospital_bed_availability g feed req a).
              h_id h = e_id ?e \<and> available_beds h = 1
              \<and> icu_beds h = max 1 (fst (snd ?sim))
              \<and> current_load h = ''CRITICAL_OVERRIDE''" by blast
  }
  {
    assume p: "0 < fst ?sim"
    define h where "h = the (hospital_candidate g req a ?e (feed i))"
    have ov: "critical_override (severity_level a) ?sim = ?sim"
      using p by (cases ?sim) (auto simp: critical_override_def)
    have "\<exists>h. hospital_candidate g req a ?e (feed i) = Some h"
      unfolding hospital_candidate_iff ov using p by simp
    then have c: "hospital_candidate g req a ?e (feed i) = Some h" unfolding h_def by auto
    then have "h \<in> set (check_hospital_bed_availability g feed req a)"
      using i check_set[of g feed req a] available_hospitals_iff[of h g feed req a] by blast
    moreover from hospital_candidate_Some[OF c] ov
    have "h_id h = e_id ?e \<and> (available_beds h, icu_beds h, current_load h) = ?sim"
      by simp
    ultimately show "\<exists>h \<in> set (check_hospital_bed_availability g feed req a).
              h_id h = e_id ?e \<and> (available_beds h, icu_beds h, current_load h) = ?sim"
      by blast
  }
qed

theorem zero_bed_override_witness:
  "(2::nat) < 4
   \<and> fst (simulated_beds (hospital_data ! 2) (peak_feed 20 2)) = 0
   \<and> severity_level (assess_patient_with_ai first_request) = CRITICAL
   \<and> severity_level (assess_patient_with_ai (sample_request 30 OTHER True True False)) \<noteq> CRITICAL
   \<and> (\<exists>h. h \<in> set (check_hospital_bed_availability grid_km (peak_feed 20) first_request
                    (assess_patient_with_ai first_request))
        \<and> h_id h = e_id (hospital_data ! 2) \<and> available_beds h = 1
        \<and> current_load h = ''CRITICAL_OVERRIDE'')
   \<and> \<not> (\<exists>h. h \<in> set (check_hospital_bed_availability grid_km (peak_feed 20)
                    (sample_request 30 OTHER True True False)
                    (assess_patient_with_ai (sample_request 30 OTHER True True False)))
          \<and> h_id h = e_id (hospital_data ! 2))"
proof -
  have ev: "(2::nat) < 4
     \<and> fst (simulated_beds (hospital_data ! 2) (peak_feed 20 2)) = 0
     \<and> severity_level (assess_patient_with_ai first_request) = CRITICAL
     \<and> severity_level (assess_patient_with_ai (sample_request 30 OTHER True True False)) \<noteq> CRITICAL"
    by code_simp
  from zero_bed_override[of 2 "peak_feed 20" "assess_patient_with_ai first_request"
      grid_km first_request] ev
  have a: "\<exists>h. h \<in> set (check_hospital_bed_availability grid_km (peak_feed 20) first_request
                    (assess_patient_with_ai first_request))
        \<and> h_id h = e_id (hospital_data ! 2) \<and> available_beds h = 1
        \<and> current_load h = ''CRITICAL_OVERRIDE''"
    by blast
  from zero_bed_override[of 2 "peak_feed 20"
      "assess_patient_with_ai (sample_request 30 OTHER True True False)"
      grid_km "sample_request 30 OTHER True True False"] ev
  have b: "\<not> (\<exists>h. h \<in> set (check_hospital_bed_availability grid_km (peak_feed 20)
                    (sample_request 30 OTHER True True False)
                    (assess_patient_with_ai (sample_request 30 OTHER True True False)))
          \<and> h_id h = e_id (hospital_data ! 2))"
    by blast
  from ev a b show ?thesis by blast
qed


text \<open>
  The claim as worded, with the override capped at once per facility, fails: two
  critical cardiac incidents in the afternoon peak, both nearest to the Fortis hospital
  with a simulated count of 0, both get Fortis as first choice with an override bed.
\<close>

theorem zero_bed_override_counterexample:
  "severity_level (assess_patient_with_ai first_request) = CRITICAL
   \<and> severity_level (assess_patient_with_ai second_request) = CRITICAL
   \<and> e_id (hospital_data ! 2) = ''FORTIS_DELHI''
   \<and> fst (simulated_beds (hospital_data ! 2) (peak_feed 20 2)) = 0
   \<and> fst (simulated_beds (hospital_data ! 2) (peak_feed 18 2)) = 0
   \<and> map (\<lambda>h. (h_id h, available_beds h, current_load h))
        (check_hospital_bed_availability grid_km (peak_feed 20) first_request
           (assess_patient_with_ai first_request))
       = [(''FORTIS_DELHI'', 1, ''CRITICAL_OVERRIDE''), (''AIIMS_DELHI'', 5, ''HIGH''),
          (''MAX_SAKET'', 1, ''CRITICAL_OVERRIDE''), (''SAFDARJUNG'', 5, ''HIGH'')]
   \<and> map (\<lambda>h. (h_id h, available_beds h, current_load h))
        (check_hospital_bed_availability grid_km (peak_feed 18) second_request
           (assess_patient_with_ai second_request))
       = [(''FORTIS_DELHI'', 1, ''CRITICAL_OVERRIDE''), (''AIIMS_DELHI'', 7, ''HIGH''),
          (''MAX_SAKET'', 1, ''CRITICAL_OVERRIDE''), (''SAFDARJUNG'', 7, ''HIGH'')]"
  by code_simp

subsection \<open>Console reads\<close>







subsection \<open>Intake\<close>





end
